theory Spec2Isabelle
  imports Complex_Main
begin

section \<open>Values, arrays and errors\<close>

text \<open>
  Python floats and NumPy float arrays are modelled over the reals: comparisons, sums and
  quotients are the exact ones, and neither rounding nor NaN nor the infinities exist in the
  model. The one NaN the source itself tests for, an unvoiced frame of the pitch contour, is
  \<open>None\<close> in a \<open>real option list\<close>.

  A NumPy array is one-dimensional (a mono signal, a feature vector) or two-dimensional
  (a list of rows; for audio a row is one sample instant across the channels).
\<close>

datatype ndarray = Arr1 "real list" | Arr2 "real list list"

type_synonym matrix = "real list list"

text \<open>The reason carried by a \<open>ValueError\<close>.\<close>

datatype value_fault =
    TooShort real real
  | TooLong real real
  | ZeroSizeReduction

text \<open>
  Exceptions are values. \<open>LibraryError\<close> is whatever a library primitive (librosa, joblib,
  scikit-learn) raised; \<open>Wrapped p e\<close> is the source's
  \<^verbatim>\<open>raise Exception(f"p: {str(e)}")\<close>.
\<close>

datatype error =
    IndexError
  | AttributeError
  | ZeroDivisionError
  | ValueError value_fault
  | LibraryError string
  | Wrapped string error

text \<open>Sequencing of fallible steps: the first exception ends the computation.\<close>

definition bind_err :: "error + 'a \<Rightarrow> ('a \<Rightarrow> error + 'b) \<Rightarrow> error + 'b" where
  "bind_err m f = (case m of Inl e \<Rightarrow> Inl e | Inr x \<Rightarrow> f x)"

text \<open>\<^verbatim>\<open>try: body except Exception as e: raise Exception(f"p: {str(e)}")\<close>\<close>

definition reraise :: "string \<Rightarrow> error + 'a \<Rightarrow> error + 'a" where
  "reraise p m = (case m of Inl e \<Rightarrow> Inl (Wrapped p e) | Inr x \<Rightarrow> Inr x)"

text \<open>\<^verbatim>\<open>len(a)\<close>: the size of the first axis.\<close>

fun len :: "ndarray \<Rightarrow> nat" where
  "len (Arr1 xs) = length xs"
| "len (Arr2 rows) = length rows"

text \<open>\<^verbatim>\<open>a[i]\<close> for a constant index \<open>i \<ge> 0\<close> into a one-dimensional array.\<close>

definition item :: "'a list \<Rightarrow> nat \<Rightarrow> error + 'a" where
  "item xs i = (if i < length xs then Inr (xs ! i) else Inl IndexError)"

section \<open>Configuration (app/config.py)\<close>

definition SAMPLE_RATE :: nat where "SAMPLE_RATE = 22050"
definition N_MFCC :: nat where "N_MFCC = 13"
definition N_FFT :: nat where "N_FFT = 2048"
definition HOP_LENGTH :: nat where "HOP_LENGTH = 512"

section \<open>AudioProcessor (app/audio_processor.py)\<close>

record audio_processor =
  sample_rate :: nat

text \<open>\<^verbatim>\<open>AudioProcessor.__init__\<close>\<close>

definition AudioProcessor :: audio_processor where
  "AudioProcessor = \<lparr>sample_rate = SAMPLE_RATE\<rparr>"

text \<open>
  \<^verbatim>\<open>validate_audio_duration(self, audio_array, min_duration, max_duration)\<close>.
  The two \<open>ValueError\<close>s carry the duration and the bound that was crossed.
\<close>

definition validate_audio_duration ::
    "audio_processor \<Rightarrow> ndarray \<Rightarrow> real \<Rightarrow> real \<Rightarrow> error + bool" where
  "validate_audio_duration self audio_array min_duration max_duration =
     (if sample_rate self = 0 then Inl ZeroDivisionError
      else
        let duration = real (len audio_array) / real (sample_rate self) in
        if duration < min_duration then Inl (ValueError (TooShort duration min_duration))
        else if duration > max_duration then Inl (ValueError (TooLong duration max_duration))
        else Inr True)"

text \<open>The call with the default bounds \<^verbatim>\<open>min_duration=0.5, max_duration=30.0\<close>.\<close>

definition validate_audio_duration_default :: "audio_processor \<Rightarrow> ndarray \<Rightarrow> error + bool" where
  "validate_audio_duration_default self audio_array =
     validate_audio_duration self audio_array (1 / 2) 30"

text \<open>All entries of an array, and the array with every entry divided by \<open>m\<close>.\<close>

fun flat :: "ndarray \<Rightarrow> real list" where
  "flat (Arr1 xs) = xs"
| "flat (Arr2 rows) = concat rows"

fun divide_by :: "ndarray \<Rightarrow> real \<Rightarrow> ndarray" where
  "divide_by (Arr1 xs) m = Arr1 (map (\<lambda>x. x / m) xs)"
| "divide_by (Arr2 rows) m = Arr2 (map (map (\<lambda>x. x / m)) rows)"

text \<open>
  \<^verbatim>\<open>np.max(np.abs(a))\<close>: the maximum over all entries; NumPy raises \<open>ValueError\<close> on an
  array without entries.
\<close>

definition np_max_abs :: "ndarray \<Rightarrow> error + real" where
  "np_max_abs a =
     (if flat a = [] then Inl (ValueError ZeroSizeReduction)
      else Inr (Max (set (map abs (flat a)))))"

text \<open>
  \<^verbatim>\<open>np.mean\<close> of a one-dimensional array. On an empty array NumPy returns NaN, which the
  reals do not have: the model's value there (\<open>0\<close>) stands for nothing. The statements
  below take means of non-empty arrays.
\<close>

definition np_mean :: "real list \<Rightarrow> real" where
  "np_mean xs = sum_list xs / real (length xs)"

text \<open>\<^verbatim>\<open>_normalize_audio\<close>\<close>

definition normalize_audio :: "ndarray \<Rightarrow> error + ndarray" where
  "normalize_audio audio_array =
     bind_err (np_max_abs audio_array) (\<lambda>max_val.
       Inr (if max_val > 0 then divide_by audio_array max_val else audio_array))"

text \<open>\<^verbatim>\<open>_ensure_mono\<close>: \<^verbatim>\<open>np.mean(audio_array, axis=1)\<close> when there is more than one axis.\<close>

fun ensure_mono :: "ndarray \<Rightarrow> ndarray" where
  "ensure_mono (Arr1 xs) = Arr1 xs"
| "ensure_mono (Arr2 rows) = Arr1 (map np_mean rows)"

text \<open>
  \<^verbatim>\<open>_convert_to_wav\<close>. The decoder \<^verbatim>\<open>librosa.load(path, sr=self.sample_rate, mono=True)\<close>
  is a parameter: from the bytes and the target rate it gives a one-dimensional signal or
  raises. The temporary file is removed on both paths and has no effect on the result.
\<close>

type_synonym bytes = "nat list"
type_synonym decoder = "bytes \<Rightarrow> nat \<Rightarrow> error + real list"

definition convert_to_wav :: "decoder \<Rightarrow> audio_processor \<Rightarrow> bytes \<Rightarrow> error + ndarray" where
  "convert_to_wav librosa_load self audio_bytes =
     reraise ''Audio format conversion error''
       (bind_err (librosa_load audio_bytes (sample_rate self)) (\<lambda>audio_array.
          Inr (Arr1 audio_array)))"

text \<open>Steps 2 and 3 of \<^verbatim>\<open>process_audio\<close>, in the order the source runs them.\<close>

definition normalize_steps :: "ndarray \<Rightarrow> error + ndarray" where
  "normalize_steps audio_array =
     bind_err (normalize_audio audio_array) (\<lambda>audio_array.
       Inr (ensure_mono audio_array))"

text \<open>\<^verbatim>\<open>process_audio\<close>\<close>

definition process_audio ::
    "decoder \<Rightarrow> audio_processor \<Rightarrow> bytes \<Rightarrow> error + ndarray \<times> nat" where
  "process_audio librosa_load self audio_bytes =
     reraise ''Audio processing error''
       (bind_err (convert_to_wav librosa_load self audio_bytes) (\<lambda>audio_array.
        bind_err (normalize_steps audio_array) (\<lambda>audio_array.
          Inr (audio_array, sample_rate self))))"

text \<open>
  The normalizer as the specification words it, for comparison: (a) downmix a multi-channel
  waveform to mono by per-sample averaging across channels, (b) take the peak absolute
  amplitude and, if it is nonzero, divide every sample by it.
\<close>

definition spec_normalize :: "ndarray \<Rightarrow> real list" where
  "spec_normalize w =
     (let mono = (case w of Arr1 xs \<Rightarrow> xs
                          | Arr2 rows \<Rightarrow> map (\<lambda>r. sum_list r / real (length r)) rows);
          peak = (if mono = [] then 0 else Max (set (map abs mono)))
      in if peak \<noteq> 0 then map (\<lambda>x. x / peak) mono else mono)"

section \<open>FeatureExtractor (app/feature_extractor.py)\<close>

text \<open>
  The librosa primitives the extractor calls, as parameters. Each takes the signal and the
  keyword arguments the source passes and returns its array or raises. \<^verbatim>\<open>pyin\<close> is called
  with the fixed bounds \<^verbatim>\<open>note_to_hz('C2')\<close> and \<^verbatim>\<open>note_to_hz('C7')\<close> and gives the
  contour \<open>f0\<close>, NaN (\<open>None\<close>) on unvoiced frames; \<^verbatim>\<open>beat_track\<close> gives the tempo;
  \<^verbatim>\<open>hpss\<close> gives the harmonic and the percussive signal.
\<close>

record librosa =
  feature_mfcc :: "ndarray \<Rightarrow> nat \<Rightarrow> nat \<Rightarrow> nat \<Rightarrow> nat \<Rightarrow> error + matrix"
  pyin :: "ndarray \<Rightarrow> nat \<Rightarrow> error + real option list"
  feature_rms :: "ndarray \<Rightarrow> nat \<Rightarrow> error + matrix"
  feature_zero_crossing_rate :: "ndarray \<Rightarrow> nat \<Rightarrow> error + matrix"
  feature_spectral_centroid :: "ndarray \<Rightarrow> nat \<Rightarrow> nat \<Rightarrow> error + matrix"
  feature_spectral_rolloff :: "ndarray \<Rightarrow> nat \<Rightarrow> nat \<Rightarrow> error + matrix"
  feature_spectral_flatness :: "ndarray \<Rightarrow> nat \<Rightarrow> error + matrix"
  feature_spectral_bandwidth :: "ndarray \<Rightarrow> nat \<Rightarrow> nat \<Rightarrow> error + matrix"
  feature_spectral_contrast :: "ndarray \<Rightarrow> nat \<Rightarrow> nat \<Rightarrow> error + matrix"
  onset_onset_strength :: "ndarray \<Rightarrow> nat \<Rightarrow> nat \<Rightarrow> error + real list"
  beat_beat_track :: "ndarray \<Rightarrow> nat \<Rightarrow> nat \<Rightarrow> error + real"
  autocorrelate :: "ndarray \<Rightarrow> error + real list"
  effects_hpss :: "ndarray \<Rightarrow> error + real list \<times> real list"

text \<open>
  The extractor's fields; \<open>fe_sample_rate\<close> is the source's \<^verbatim>\<open>self.sample_rate\<close> (the
  plain name is the field of the audio processor).
\<close>

record feature_extractor =
  fe_sample_rate :: nat
  n_mfcc :: nat
  n_fft :: nat
  hop_length :: nat

text \<open>\<^verbatim>\<open>FeatureExtractor.__init__\<close>\<close>

definition FeatureExtractor :: feature_extractor where
  "FeatureExtractor =
     \<lparr>fe_sample_rate = SAMPLE_RATE, n_mfcc = N_MFCC, n_fft = N_FFT, hop_length = HOP_LENGTH\<rparr>"

text \<open>\<^verbatim>\<open>np.std\<close>: the population standard deviation.\<close>

definition np_std :: "real list \<Rightarrow> real" where
  "np_std xs = sqrt (np_mean (map (\<lambda>x. (x - np_mean xs)\<^sup>2) xs))"

text \<open>\<^verbatim>\<open>np.min\<close> and \<^verbatim>\<open>np.max\<close>, called by the source on non-empty arrays only.\<close>

definition np_min :: "real list \<Rightarrow> real" where
  "np_min xs = Min (set xs)"

definition np_max :: "real list \<Rightarrow> real" where
  "np_max xs = Max (set xs)"

text \<open>\<^verbatim>\<open>_extract_mfcc\<close>: the mean over time of every coefficient row.\<close>

definition extract_mfcc :: "librosa \<Rightarrow> feature_extractor \<Rightarrow> ndarray \<Rightarrow> error + real list" where
  "extract_mfcc L self audio_array =
     bind_err (feature_mfcc L audio_array (fe_sample_rate self) (n_mfcc self) (n_fft self)
                 (hop_length self)) (\<lambda>mfcc.
       let mfcc_mean = map np_mean mfcc in
       Inr mfcc_mean)"

text \<open>\<^verbatim>\<open>_extract_pitch_features\<close>; \<open>f0_valid\<close> is \<^verbatim>\<open>f0[~np.isnan(f0)]\<close>.\<close>

definition extract_pitch_features ::
    "librosa \<Rightarrow> feature_extractor \<Rightarrow> ndarray \<Rightarrow> error + real list" where
  "extract_pitch_features L self audio_array =
     bind_err (pyin L audio_array (fe_sample_rate self)) (\<lambda>f0.
       let f0_valid = map the (filter (\<lambda>v. v \<noteq> None) f0) in
       if length f0_valid > 0 then
         let pitch_mean = np_mean f0_valid;
             pitch_std = np_std f0_valid;
             pitch_min = np_min f0_valid;
             pitch_max = np_max f0_valid;
             pitch_range = pitch_max - pitch_min
         in Inr [pitch_mean, pitch_std, pitch_min, pitch_max, pitch_range]
       else Inr [0, 0, 0, 0, 0])"

text \<open>\<^verbatim>\<open>_extract_energy_features\<close>; \<^verbatim>\<open>[0]\<close> takes the first row of the primitive's result.\<close>

definition extract_energy_features ::
    "librosa \<Rightarrow> feature_extractor \<Rightarrow> ndarray \<Rightarrow> error + real list" where
  "extract_energy_features L self audio_array =
     bind_err (bind_err (feature_rms L audio_array (hop_length self)) (\<lambda>m. item m 0)) (\<lambda>rms.
     let rms_mean = np_mean rms; rms_std = np_std rms in
     bind_err (bind_err (feature_zero_crossing_rate L audio_array (hop_length self))
                 (\<lambda>m. item m 0)) (\<lambda>zcr.
     let zcr_mean = np_mean zcr; zcr_std = np_std zcr in
     Inr [rms_mean, rms_std, zcr_mean, zcr_std]))"

text \<open>\<^verbatim>\<open>_extract_spectral_features\<close>\<close>

definition extract_spectral_features ::
    "librosa \<Rightarrow> feature_extractor \<Rightarrow> ndarray \<Rightarrow> error + real list" where
  "extract_spectral_features L self audio_array =
     bind_err (bind_err (feature_spectral_centroid L audio_array (fe_sample_rate self)
                           (hop_length self)) (\<lambda>m. item m 0)) (\<lambda>spectral_centroid.
     let centroid_mean = np_mean spectral_centroid; centroid_std = np_std spectral_centroid in
     bind_err (bind_err (feature_spectral_rolloff L audio_array (fe_sample_rate self)
                           (hop_length self)) (\<lambda>m. item m 0)) (\<lambda>spectral_rolloff.
     let rolloff_mean = np_mean spectral_rolloff; rolloff_std = np_std spectral_rolloff in
     bind_err (bind_err (feature_spectral_flatness L audio_array (hop_length self))
                 (\<lambda>m. item m 0)) (\<lambda>spectral_flatness.
     let flatness_mean = np_mean spectral_flatness; flatness_std = np_std spectral_flatness in
     bind_err (bind_err (feature_spectral_bandwidth L audio_array (fe_sample_rate self)
                           (hop_length self)) (\<lambda>m. item m 0)) (\<lambda>spectral_bandwidth.
     let bandwidth_mean = np_mean spectral_bandwidth; bandwidth_std = np_std spectral_bandwidth in
     bind_err (bind_err (feature_spectral_contrast L audio_array (fe_sample_rate self)
                           (hop_length self)) (\<lambda>m. item m 0)) (\<lambda>spectral_contrast.
     let contrast_mean = np_mean spectral_contrast; contrast_std = np_std spectral_contrast in
     Inr [centroid_mean, centroid_std,
          rolloff_mean, rolloff_std,
          flatness_mean, flatness_std,
          bandwidth_mean, bandwidth_std,
          contrast_mean, contrast_std])))))"

text \<open>
  \<^verbatim>\<open>_extract_prosody_features\<close>; \<^verbatim>\<open>autocorr[:100]\<close> is the first 100 lags, and the two
  ratios divide by the mean absolute amplitude plus \<open>1e-6\<close>.
\<close>

definition extract_prosody_features ::
    "librosa \<Rightarrow> feature_extractor \<Rightarrow> ndarray \<Rightarrow> error + real list" where
  "extract_prosody_features L self audio_array =
     bind_err (onset_onset_strength L audio_array (fe_sample_rate self) (hop_length self))
       (\<lambda>onset_env.
     let onset_mean = np_mean onset_env; onset_std = np_std onset_env in
     bind_err (beat_beat_track L audio_array (fe_sample_rate self) (hop_length self)) (\<lambda>tempo.
     bind_err (autocorrelate L audio_array) (\<lambda>autocorr.
     let autocorr_mean = np_mean (take 100 autocorr);
         autocorr_std = np_std (take 100 autocorr) in
     bind_err (effects_hpss L audio_array) (\<lambda>(harmonic, percussive).
     let harmonic_ratio =
           np_mean (map abs harmonic) / (np_mean (map abs (flat audio_array)) + 1 / 1000000);
         percussive_ratio =
           np_mean (map abs percussive) / (np_mean (map abs (flat audio_array)) + 1 / 1000000)
     in Inr [onset_mean, onset_std,
             tempo,
             autocorr_mean, autocorr_std,
             harmonic_ratio, percussive_ratio]))))"

text \<open>\<^verbatim>\<open>extract_features\<close>: the list \<open>features\<close> is extended family by family.\<close>

definition extract_features ::
    "librosa \<Rightarrow> feature_extractor \<Rightarrow> ndarray \<Rightarrow> error + real list" where
  "extract_features L self audio_array =
     reraise ''Feature extraction error''
       (let features = [] in
        bind_err (extract_mfcc L self audio_array) (\<lambda>mfcc_features.
        let features = features @ mfcc_features in
        bind_err (extract_pitch_features L self audio_array) (\<lambda>pitch_features.
        let features = features @ pitch_features in
        bind_err (extract_energy_features L self audio_array) (\<lambda>energy_features.
        let features = features @ energy_features in
        bind_err (extract_spectral_features L self audio_array) (\<lambda>spectral_features.
        let features = features @ spectral_features in
        bind_err (extract_prosody_features L self audio_array) (\<lambda>prosody_features.
        let features = features @ prosody_features in
        Inr features))))))"

text \<open>
  A stand-in for librosa, for evaluating examples: two unvoiced frames, one frame of every
  other quantity, and thirteen cepstral rows.
\<close>

definition silent_librosa :: librosa where
  "silent_librosa =
     \<lparr>feature_mfcc = (\<lambda>y sr n_mfcc n_fft hop. Inr (replicate n_mfcc [0, 0])),
      pyin = (\<lambda>y sr. Inr [None, None]),
      feature_rms = (\<lambda>y hop. Inr [[0, 0]]),
      feature_zero_crossing_rate = (\<lambda>y hop. Inr [[0, 0]]),
      feature_spectral_centroid = (\<lambda>y sr hop. Inr [[0, 0]]),
      feature_spectral_rolloff = (\<lambda>y sr hop. Inr [[0, 0]]),
      feature_spectral_flatness = (\<lambda>y hop. Inr [[1, 1]]),
      feature_spectral_bandwidth = (\<lambda>y sr hop. Inr [[0, 0]]),
      feature_spectral_contrast = (\<lambda>y sr hop. Inr [[0, 0]]),
      onset_onset_strength = (\<lambda>y sr hop. Inr [0, 0]),
      beat_beat_track = (\<lambda>y sr hop. Inr 0),
      autocorrelate = (\<lambda>y. Inr (map (\<lambda>x. 0) (flat y))),
      effects_hpss = (\<lambda>y. Inr (flat y, flat y))\<rparr>"

text \<open>The same with a voiced contour: 100 Hz, unvoiced, 200 Hz.\<close>

definition voiced_librosa :: librosa where
  "voiced_librosa = silent_librosa\<lparr>pyin := (\<lambda>y sr. Inr [Some 100, None, Some 200])\<rparr>"

section \<open>VoiceExplainer (app/explainer.py)\<close>

text \<open>\<^verbatim>\<open>VoiceExplainer.FEATURE_NAMES\<close>: the name of each of the 39 positions.\<close>

definition FEATURE_NAMES :: "string list" where
  "FEATURE_NAMES =
     [''MFCC-1'', ''MFCC-2'', ''MFCC-3'', ''MFCC-4'', ''MFCC-5'', ''MFCC-6'', ''MFCC-7'',
      ''MFCC-8'', ''MFCC-9'', ''MFCC-10'', ''MFCC-11'', ''MFCC-12'', ''MFCC-13'',
      ''Pitch Mean'', ''Pitch Std'', ''Pitch Min'', ''Pitch Max'', ''Pitch Range'',
      ''RMS Mean'', ''RMS Std'', ''ZCR Mean'', ''ZCR Std'',
      ''Spectral Centroid Mean'', ''Spectral Centroid Std'',
      ''Spectral Rolloff Mean'', ''Spectral Rolloff Std'',
      ''Spectral Flatness Mean'', ''Spectral Flatness Std'',
      ''Spectral Bandwidth Mean'', ''Spectral Bandwidth Std'',
      ''Spectral Contrast Mean'', ''Spectral Contrast Std'',
      ''Onset Mean'', ''Onset Std'', ''Tempo'',
      ''Autocorr Mean'', ''Autocorr Std'',
      ''Harmonic Ratio'', ''Percussive Ratio'']"

text \<open>\<^verbatim>\<open>sep.join(parts)\<close>\<close>

fun join :: "string \<Rightarrow> string list \<Rightarrow> string" where
  "join sep [] = []"
| "join sep [x] = x"
| "join sep (x # y # ys) = x @ sep @ join sep (y # ys)"

text \<open>
  The \<^verbatim>\<open>top_features\<close> argument of the explainer: \<^verbatim>\<open>None\<close> or a list of
  (index, value, importance) triples. Neither rule set reads it.
\<close>

type_synonym top_features = "(nat \<times> real \<times> real) list option"

text \<open>
  \<^verbatim>\<open>_explain_ai_voice\<close>. Each \<^verbatim>\<open>features[i]\<close> raises \<open>IndexError\<close> on a vector that
  is too short; the list \<open>explanations\<close> grows by \<^verbatim>\<open>append\<close>.
\<close>

definition explain_ai_voice :: "real \<Rightarrow> real list \<Rightarrow> top_features \<Rightarrow> error + string" where
  "explain_ai_voice confidence features top_features =
     (let explanations = [] in
      bind_err (item features 14) (\<lambda>pitch_std.
      let explanations =
            (if pitch_std < 20 then explanations @ [''unnatural pitch consistency'']
             else explanations) in
      bind_err (item features 26) (\<lambda>spectral_flatness_mean.
      let explanations =
            (if spectral_flatness_mean < 1 / 10 then explanations @ [''minimal spectral variations'']
             else explanations) in
      bind_err (item features 19) (\<lambda>rms_std.
      let explanations =
            (if rms_std < 5 / 100 then explanations @ [''uniform energy distribution'']
             else explanations) in
      bind_err (item features 34) (\<lambda>tempo.
      let explanations =
            (if 100 < tempo \<and> tempo < 140 then explanations @ [''mechanical speech rhythm'']
             else explanations) in
      bind_err (item features 37) (\<lambda>harmonic_ratio.
      let explanations =
            (if harmonic_ratio > 7 / 10 then explanations @ [''overly smooth harmonic structure'']
             else explanations);
          explanations =
            (if explanations = [] then explanations @ [''synthetic voice characteristics detected'']
             else explanations);
          strength =
            (if confidence > 9 / 10 then ''Strong''
             else if confidence > 7 / 10 then ''Clear''
             else ''Moderate'')
      in Inr (strength @ '' indicators of AI generation: '' @ join '', '' (take 3 explanations))))))))"

text \<open>\<^verbatim>\<open>_explain_human_voice\<close>\<close>

definition explain_human_voice :: "real \<Rightarrow> real list \<Rightarrow> top_features \<Rightarrow> error + string" where
  "explain_human_voice confidence features top_features =
     (let explanations = [] in
      bind_err (item features 14) (\<lambda>pitch_std.
      let explanations =
            (if pitch_std > 30 then explanations @ [''natural pitch variations'']
             else explanations) in
      bind_err (item features 26) (\<lambda>spectral_flatness_mean.
      let explanations =
            (if spectral_flatness_mean > 15 / 100 then explanations @ [''rich spectral complexity'']
             else explanations) in
      bind_err (item features 19) (\<lambda>rms_std.
      let explanations =
            (if rms_std > 8 / 100 then explanations @ [''natural energy fluctuations'']
             else explanations) in
      bind_err (item features 33) (\<lambda>onset_std.
      let explanations =
            (if onset_std > 5 / 10 then explanations @ [''organic speech rhythm'']
             else explanations) in
      bind_err (item features 36) (\<lambda>autocorr_std.
      let explanations =
            (if autocorr_std > 100 then explanations @ [''natural micro-variations'']
             else explanations);
          explanations =
            (if explanations = [] then explanations @ [''human voice characteristics detected'']
             else explanations);
          strength =
            (if confidence > 9 / 10 then ''Strong''
             else if confidence > 7 / 10 then ''Clear''
             else ''Moderate'')
      in Inr (strength @ '' indicators of human voice: '' @ join '', '' (take 3 explanations))))))))"

text \<open>
  \<^verbatim>\<open>generate_explanation\<close>. The \<^verbatim>\<open>except Exception\<close> branch returns the templated
  sentence, so every path ends in a returned string (\<open>Inr\<close>). Python's float formatting
  \<^verbatim>\<open>{confidence:.2%}\<close> is the parameter \<open>percent\<close>.
\<close>

definition generate_explanation ::
    "(real \<Rightarrow> string) \<Rightarrow> string \<Rightarrow> real \<Rightarrow> real list \<Rightarrow> top_features \<Rightarrow> error + string" where
  "generate_explanation percent classification confidence features top_features =
     (case (if classification = ''AI_GENERATED''
            then explain_ai_voice confidence features top_features
            else explain_human_voice confidence features top_features) of
        Inr explanation \<Rightarrow> Inr explanation
      | Inl e \<Rightarrow>
          Inr (''Voice classified as '' @ classification @ '' with '' @ percent confidence
               @ '' confidence''))"

subsection \<open>The explainer as the specification words it\<close>

datatype label = AI_GENERATED | HUMAN

fun label_str :: "label \<Rightarrow> string" where
  "label_str AI_GENERATED = ''AI_GENERATED''"
| "label_str HUMAN = ''HUMAN''"

text \<open>The position of a named feature in the vector, by the table of names.\<close>

definition feature_index :: "string \<Rightarrow> nat" where
  "feature_index name = length (takeWhile (\<lambda>n. n \<noteq> name) FEATURE_NAMES)"

text \<open>A cue: the feature it reads, the threshold test, the phrase it contributes.\<close>

type_synonym rule = "string \<times> (real \<Rightarrow> bool) \<times> string"

fun spec_rules :: "label \<Rightarrow> rule list" where
  "spec_rules AI_GENERATED =
     [(''Pitch Std'', \<lambda>v. v < 20, ''unnatural pitch consistency''),
      (''Spectral Flatness Mean'', \<lambda>v. v < 1 / 10, ''minimal spectral variations''),
      (''RMS Std'', \<lambda>v. v < 5 / 100, ''uniform energy distribution''),
      (''Tempo'', \<lambda>v. 100 < v \<and> v < 140, ''mechanical speech rhythm''),
      (''Harmonic Ratio'', \<lambda>v. v > 7 / 10, ''overly smooth harmonic structure'')]"
| "spec_rules HUMAN =
     [(''Pitch Std'', \<lambda>v. v > 30, ''natural pitch variations''),
      (''Spectral Flatness Mean'', \<lambda>v. v > 15 / 100, ''rich spectral complexity''),
      (''RMS Std'', \<lambda>v. v > 8 / 100, ''natural energy fluctuations''),
      (''Onset Std'', \<lambda>v. v > 5 / 10, ''organic speech rhythm''),
      (''Autocorr Std'', \<lambda>v. v > 100, ''natural micro-variations'')]"

fun spec_generic :: "label \<Rightarrow> string" where
  "spec_generic AI_GENERATED = ''synthetic voice characteristics detected''"
| "spec_generic HUMAN = ''human voice characteristics detected''"

fun spec_label_phrase :: "label \<Rightarrow> string" where
  "spec_label_phrase AI_GENERATED = ''AI generation''"
| "spec_label_phrase HUMAN = ''human voice''"

definition spec_strength :: "real \<Rightarrow> string" where
  "spec_strength confidence =
     (if confidence > 9 / 10 then ''Strong''
      else if confidence > 7 / 10 then ''Clear''
      else ''Moderate'')"

text \<open>The phrases of the cues that match, in rule order.\<close>

definition spec_matching :: "label \<Rightarrow> real list \<Rightarrow> string list" where
  "spec_matching l features =
     map (\<lambda>(name, test, phrase). phrase)
       (filter (\<lambda>(name, test, phrase). test (features ! feature_index name)) (spec_rules l))"

definition spec_explain :: "label \<Rightarrow> real \<Rightarrow> real list \<Rightarrow> string" where
  "spec_explain l confidence features =
     (let matching = spec_matching l features;
          phrases = (if matching = [] then [spec_generic l] else take 3 matching)
      in spec_strength confidence @ '' indicators of '' @ spec_label_phrase l @ '': ''
         @ join '', '' phrases)"

section \<open>VoiceDetectionModel (model/model.py)\<close>

text \<open>
  A deserialized or fitted scikit-learn estimator, as far as the source uses it:
  \<^verbatim>\<open>predict_proba\<close> maps a matrix of rows to a matrix of per-class probabilities (column
  \<open>k\<close> belongs to class \<open>k\<close>) or raises; \<^verbatim>\<open>feature_importances_\<close> is \<open>None\<close> when the
  estimator has no such attribute (\<^verbatim>\<open>hasattr\<close> is false).
\<close>

record classifier =
  predict_proba :: "matrix \<Rightarrow> error + matrix"
  feature_importances :: "real list option"

text \<open>A fitted \<^verbatim>\<open>RandomForestClassifier\<close>: it always has its importances.\<close>

record forest =
  forest_predict_proba :: "matrix \<Rightarrow> error + matrix"
  forest_feature_importances :: "real list"

text \<open>A scaler is its \<^verbatim>\<open>transform\<close>.\<close>

type_synonym scaler = "matrix \<Rightarrow> error + matrix"

record voice_detection_model =
  model :: "classifier option"
  scaler :: "scaler option"
  feature_importance :: "real list option"
  is_loaded :: bool

text \<open>\<^verbatim>\<open>VoiceDetectionModel.__init__\<close>\<close>

definition VoiceDetectionModel :: voice_detection_model where
  "VoiceDetectionModel =
     \<lparr>model = None, scaler = None, feature_importance = None, is_loaded = False\<rparr>"

definition MODEL_PATH :: string where "MODEL_PATH = ''model/ai_voice_classifier.pkl''"
definition SCALER_PATH :: string where "SCALER_PATH = ''model/feature_scaler.pkl''"

text \<open>
  What the model module reaches outside the repository: the file system
  (\<^verbatim>\<open>os.path.exists\<close>, \<^verbatim>\<open>joblib.load\<close> of the model and of the scaler file), NumPy's global
  random generator with its state \<open>'r\<close> threaded through the calls (\<^verbatim>\<open>np.random.seed\<close>,
  \<^verbatim>\<open>np.random.normal(loc, scale, size=(n, m))\<close>, \<^verbatim>\<open>np.random.permutation(n)\<close>), and
  \<^verbatim>\<open>RandomForestClassifier(n_estimators, max_depth, random_state).fit(X, y)\<close>.
\<close>

record 'r environment =
  path_exists :: "string \<Rightarrow> bool"
  joblib_load_model :: "string \<Rightarrow> error + classifier"
  joblib_load_scaler :: "string \<Rightarrow> error + scaler"
  random_seed :: "nat \<Rightarrow> 'r"
  random_normal :: "'r \<Rightarrow> real \<Rightarrow> real \<Rightarrow> nat \<Rightarrow> nat \<Rightarrow> matrix \<times> 'r"
  random_permutation :: "'r \<Rightarrow> nat \<Rightarrow> nat list \<times> 'r"
  forest_fit :: "nat \<Rightarrow> nat \<Rightarrow> nat \<Rightarrow> matrix \<Rightarrow> nat list \<Rightarrow> forest"

text \<open>\<^verbatim>\<open>a[indices]\<close>: the rows at the given positions; \<open>IndexError\<close> on a position out of range.\<close>

definition take_rows :: "'a list \<Rightarrow> nat list \<Rightarrow> error + 'a list" where
  "take_rows a indices =
     (if list_all (\<lambda>i. i < length a) indices then Inr (map (\<lambda>i. a ! i) indices)
      else Inl IndexError)"

text \<open>
  The synthetic samples of \<^verbatim>\<open>_create_dummy_model\<close>, drawn after \<^verbatim>\<open>np.random.seed(42)\<close>:
  first the 200 rows the source calls AI voices (scale 0.1), then the 200 rows it calls
  human voices (scale 0.3), then the shuffling permutation of the 400 positions.
\<close>

definition dummy_draws :: "'r environment \<Rightarrow> matrix \<times> matrix \<times> nat list" where
  "dummy_draws env =
     (let rng = random_seed env 42;
          n_samples = 200;
          n_features = 39;
          (ai_voices, rng) = random_normal env rng (1 / 2) (1 / 10) n_samples n_features;
          (human_voices, rng) = random_normal env rng (1 / 2) (3 / 10) n_samples n_features;
          (indices, rng) = random_permutation env rng (length (ai_voices @ human_voices))
      in (ai_voices, human_voices, indices))"

text \<open>
  What NumPy promises of these draws: \<^verbatim>\<open>normal(size=(200, 39))\<close> has 200 rows, and
  \<^verbatim>\<open>permutation(400)\<close> holds each of the positions 0..399 once.
\<close>

definition draws_well_shaped :: "'r environment \<Rightarrow> bool" where
  "draws_well_shaped env =
     (case dummy_draws env of (ai_voices, human_voices, indices) \<Rightarrow>
        length ai_voices = 200 \<and> length human_voices = 200
        \<and> distinct indices \<and> set indices = {..<400})"

text \<open>The training set: stacked, labelled 0 for the first block and 1 for the second, shuffled.\<close>

definition dummy_training_set :: "'r environment \<Rightarrow> error + matrix \<times> nat list" where
  "dummy_training_set env =
     (let n_samples = 200;
          (ai_voices, human_voices, indices) = dummy_draws env;
          X = ai_voices @ human_voices;
          y = replicate n_samples 0 @ replicate n_samples 1
      in bind_err (take_rows X indices) (\<lambda>X.
         bind_err (take_rows y indices) (\<lambda>y.
           Inr (X, y))))"

text \<open>The estimator object of a fitted forest.\<close>

definition forest_classifier :: "forest \<Rightarrow> classifier" where
  "forest_classifier f =
     \<lparr>predict_proba = forest_predict_proba f,
      feature_importances = Some (forest_feature_importances f)\<rparr>"

text \<open>
  \<^verbatim>\<open>_create_dummy_model\<close>. When it raises, the caller raises too and the object is not
  used again, so only the error is kept in that case.
\<close>

definition create_dummy_model ::
    "'r environment \<Rightarrow> voice_detection_model \<Rightarrow> error + voice_detection_model" where
  "create_dummy_model env self =
     bind_err (dummy_training_set env) (\<lambda>(X, y).
       let fitted = forest_fit env 100 10 42 X y in
       Inr (self\<lparr>model := Some (forest_classifier fitted),
                 scaler := None,
                 feature_importance := Some (forest_feature_importances fitted),
                 is_loaded := True\<rparr>))"

text \<open>
  The \<^verbatim>\<open>try\<close> block of \<^verbatim>\<open>load_model\<close>: the object as the block leaves it, or the
  exception it raised.
\<close>

definition load_model_try ::
    "'r environment \<Rightarrow> voice_detection_model \<Rightarrow> error + voice_detection_model" where
  "load_model_try env self =
     (if \<not> path_exists env MODEL_PATH then create_dummy_model env self
      else
        bind_err (joblib_load_model env MODEL_PATH) (\<lambda>loaded.
        let self = self\<lparr>model := Some loaded\<rparr> in
        bind_err (if path_exists env SCALER_PATH
                  then bind_err (joblib_load_scaler env SCALER_PATH) (\<lambda>sc.
                         Inr (self\<lparr>scaler := Some sc\<rparr>))
                  else Inr self) (\<lambda>self.
        let self = (case feature_importances loaded of
                      Some w \<Rightarrow> self\<lparr>feature_importance := Some w\<rparr>
                    | None \<Rightarrow> self)
        in Inr (self\<lparr>is_loaded := True\<rparr>))))"

text \<open>
  \<^verbatim>\<open>load_model\<close>: any exception of the block leads to \<^verbatim>\<open>_create_dummy_model\<close>, which
  overwrites all four fields, also those the block had already assigned.
\<close>

definition load_model ::
    "'r environment \<Rightarrow> voice_detection_model \<Rightarrow> error + voice_detection_model" where
  "load_model env self =
     (case load_model_try env self of
        Inr self \<Rightarrow> Inr self
      | Inl e \<Rightarrow> create_dummy_model env self)"

text \<open>The \<^verbatim>\<open>try\<close> block of \<^verbatim>\<open>predict\<close>; \<^verbatim>\<open>features.reshape(1, -1)\<close> is the one-row matrix.\<close>

definition predict_try ::
    "voice_detection_model \<Rightarrow> real list \<Rightarrow> error + string \<times> real \<times> real list" where
  "predict_try self features =
     (let features = [features] in
      bind_err (case scaler self of Some sc \<Rightarrow> sc features | None \<Rightarrow> Inr features) (\<lambda>features.
      bind_err (case model self of
                  None \<Rightarrow> Inl AttributeError
                | Some m \<Rightarrow> bind_err (predict_proba m features) (\<lambda>out. item out 0))
        (\<lambda>probabilities.
      bind_err (item probabilities 0) (\<lambda>human_prob.
      bind_err (item probabilities 1) (\<lambda>ai_prob.
        if ai_prob > human_prob
        then Inr (''AI_GENERATED'', ai_prob, probabilities)
        else Inr (''HUMAN'', human_prob, probabilities))))))"

text \<open>
  \<^verbatim>\<open>predict\<close>: the result, and the object, which \<^verbatim>\<open>load_model\<close> may have filled in.
\<close>

definition predict ::
    "'r environment \<Rightarrow> voice_detection_model \<Rightarrow> real list
       \<Rightarrow> (error + string \<times> real \<times> real list) \<times> voice_detection_model" where
  "predict env self features =
     (case (if \<not> is_loaded self then load_model env self else Inr self) of
        Inl e \<Rightarrow> (Inl e, self)
      | Inr self \<Rightarrow> (reraise ''Model prediction error'' (predict_try self features), self))"

text \<open>\<^verbatim>\<open>xs[-n:]\<close> for a Python integer \<open>n\<close>: the start \<open>-n\<close> counts from the end when negative.\<close>

definition slice_from_neg :: "int \<Rightarrow> 'a list \<Rightarrow> 'a list" where
  "slice_from_neg n xs =
     (let start = - n;
          start = (if start < 0 then max 0 (start + int (length xs))
                   else min start (int (length xs)))
      in drop (nat start) xs)"

text \<open>A list comprehension whose element expression may raise.\<close>

fun traverse :: "('a \<Rightarrow> error + 'b) \<Rightarrow> 'a list \<Rightarrow> error + 'b list" where
  "traverse f [] = Inr []"
| "traverse f (x # xs) =
     bind_err (f x) (\<lambda>y. bind_err (traverse f xs) (\<lambda>ys. Inr (y # ys)))"

text \<open>
  \<^verbatim>\<open>get_top_features\<close>. \<^verbatim>\<open>np.argsort\<close> is a parameter: NumPy's default sort promises the
  positions in ascending order of their values and nothing about equal values.
\<close>

definition get_top_features ::
    "(real list \<Rightarrow> nat list) \<Rightarrow> voice_detection_model \<Rightarrow> real list \<Rightarrow> int
       \<Rightarrow> error + (nat \<times> real \<times> real) list" where
  "get_top_features argsort self features n_top =
     (case feature_importance self of
        None \<Rightarrow> Inr []
      | Some importance \<Rightarrow>
          let top_indices = rev (slice_from_neg n_top (argsort importance)) in
          traverse (\<lambda>idx.
              bind_err (item features idx) (\<lambda>feature_value.
              bind_err (item importance idx) (\<lambda>imp.
                Inr (idx, feature_value, imp))))
            top_indices)"

text \<open>
  An argsort that keeps equal values in their original order (what insertion sort does, and
  NumPy on short arrays), for evaluating examples.
\<close>

definition stable_argsort :: "real list \<Rightarrow> nat list" where
  "stable_argsort w = sort_key (\<lambda>i. w ! i) [0..<length w]"

subsection \<open>Environments for evaluating examples\<close>

text \<open>
  A forest that gives every row the probabilities 3/4 for class 0 and 1/4 for class 1, and a
  generator that "draws" every entry at its location and "shuffles" by reversal.
\<close>

definition example_forest :: forest where
  "example_forest =
     \<lparr>forest_predict_proba = (\<lambda>X. Inr (map (\<lambda>row. [3 / 4, 1 / 4]) X)),
      forest_feature_importances = replicate 39 (1 / 39)\<rparr>"

text \<open>No artifact on disk.\<close>

definition no_artifacts :: "unit environment" where
  "no_artifacts =
     \<lparr>path_exists = (\<lambda>p. False),
      joblib_load_model = (\<lambda>p. Inl (LibraryError ''No such file'')),
      joblib_load_scaler = (\<lambda>p. Inl (LibraryError ''No such file'')),
      random_seed = (\<lambda>s. ()),
      random_normal = (\<lambda>rng loc scale n m. (replicate n (replicate m loc), rng)),
      random_permutation = (\<lambda>rng n. (rev [0..<n], rng)),
      forest_fit = (\<lambda>n_estimators max_depth random_state X y. example_forest)\<rparr>"

text \<open>
  The artifacts \<^verbatim>\<open>model/train_model.py\<close> saves: a model file holding a voting ensemble,
  an estimator without \<^verbatim>\<open>feature_importances_\<close> (here one that gives every row the
  probabilities 2/5 and 3/5), and a scaler file (here the identity transform).
\<close>

definition voting_artifact :: "unit environment" where
  "voting_artifact =
     no_artifacts
       \<lparr>path_exists := (\<lambda>p. p = MODEL_PATH \<or> p = SCALER_PATH),
        joblib_load_model := (\<lambda>p. Inr \<lparr>predict_proba = (\<lambda>X. Inr (map (\<lambda>row. [2 / 5, 3 / 5]) X)),
                                          feature_importances = None\<rparr>),
        joblib_load_scaler := (\<lambda>p. Inr (\<lambda>X. Inr X))\<rparr>"

section \<open>Duration validation\<close>

lemma validate_audio_duration_cases:
  assumes "sample_rate self \<noteq> 0"
  shows "validate_audio_duration self a mn mx =
           (let d = real (len a) / real (sample_rate self) in
            if d < mn then Inl (ValueError (TooShort d mn))
            else if d > mx then Inl (ValueError (TooLong d mx))
            else Inr True)"
  using assms by (simp add: validate_audio_duration_def)

text \<open>
  Claim C5. With the processor as \<^verbatim>\<open>__init__\<close> builds it and the default bounds, the
  duration is the sample count divided by the sample rate 22050; a waveform shorter than
  0.5 s or longer than 30.0 s is rejected with a \<open>ValueError\<close> (the error kind the
  specification calls ValidationError), every other waveform yields \<open>True\<close>. In sample
  counts: accepted exactly from 11025 to 661500 samples, so the 0.3 s waveform (6615
  samples) and the 45 s waveform (992250 samples) are both rejected.
\<close>

theorem validate_duration_bounds:
  fixes a :: ndarray
  shows "(real (len a) / real SAMPLE_RATE < 1 / 2 \<longrightarrow>
            validate_audio_duration_default AudioProcessor a =
              Inl (ValueError (TooShort (real (len a) / real SAMPLE_RATE) (1 / 2))))
       \<and> (real (len a) / real SAMPLE_RATE > 30 \<longrightarrow>
            validate_audio_duration_default AudioProcessor a =
              Inl (ValueError (TooLong (real (len a) / real SAMPLE_RATE) 30)))
       \<and> (1 / 2 \<le> real (len a) / real SAMPLE_RATE \<and> real (len a) / real SAMPLE_RATE \<le> 30 \<longrightarrow>
            validate_audio_duration_default AudioProcessor a = Inr True)
       \<and> (validate_audio_duration_default AudioProcessor a = Inr True
            \<longleftrightarrow> 11025 \<le> len a \<and> len a \<le> 661500)
       \<and> (len a = 6615 \<or> len a = 992250 \<longrightarrow>
            (\<exists>f. validate_audio_duration_default AudioProcessor a = Inl (ValueError f)))"
proof -
  have sr: "sample_rate AudioProcessor \<noteq> 0" "sample_rate AudioProcessor = SAMPLE_RATE"
    by (simp_all add: AudioProcessor_def SAMPLE_RATE_def)
  have lo: "real (len a) / real SAMPLE_RATE < 1 / 2 \<longleftrightarrow> len a < 11025"
    by (simp add: SAMPLE_RATE_def field_simps)
  have hi: "real (len a) / real SAMPLE_RATE > 30 \<longleftrightarrow> len a > 661500"
    by (simp add: SAMPLE_RATE_def field_simps)
  note eq = validate_audio_duration_cases [OF sr(1), of a "1 / 2" 30, unfolded sr(2)]
  show ?thesis
    unfolding validate_audio_duration_default_def eq Let_def
    using lo hi by auto
qed

theorem validate_duration_bounds_witness:
  "validate_audio_duration_default AudioProcessor (Arr1 (replicate 6615 0)) =
     Inl (ValueError (TooShort (3 / 10) (1 / 2)))
   \<and> validate_audio_duration_default AudioProcessor (Arr1 (replicate 992250 0)) =
     Inl (ValueError (TooLong 45 30))
   \<and> validate_audio_duration_default AudioProcessor (Arr1 (replicate 22050 0)) = Inr True"
  using validate_duration_bounds [of "Arr1 (replicate 6615 0)"]
        validate_duration_bounds [of "Arr1 (replicate 992250 0)"]
        validate_duration_bounds [of "Arr1 (replicate 22050 0)"]
  by (simp add: SAMPLE_RATE_def)

section \<open>Normalization\<close>

lemma peak_pos:
  assumes "\<exists>x\<in>set xs. x \<noteq> (0::real)"
  shows "0 < Max (set (map abs xs))"
proof -
  obtain x where x: "x \<in> set xs" "x \<noteq> 0" using assms by blast
  have "\<bar>x\<bar> \<le> Max (set (map abs xs))" using x by (intro Max_ge) auto
  with x show ?thesis by linarith
qed

lemma peak_zero:
  assumes "xs \<noteq> []" "\<forall>x\<in>set xs. x = (0::real)"
  shows "Max (set (map abs xs)) = 0"
proof (rule Max_eqI)
  show "finite (set (map abs xs))" by simp
  show "\<And>y. y \<in> set (map abs xs) \<Longrightarrow> y \<le> 0" using assms by auto
  show "0 \<in> set (map abs xs)" using assms by (cases xs) auto
qed

lemma peak_scaled:
  fixes xs :: "real list"
  assumes "\<exists>x\<in>set xs. x \<noteq> 0"
  shows "Max (set (map abs (map (\<lambda>x. x / Max (set (map abs xs))) xs))) = 1"
proof -
  let ?p = "Max (set (map abs xs))"
  have pos: "0 < ?p" using assms by (rule peak_pos)
  have ne: "set (map abs xs) \<noteq> {}" using assms by auto
  have "?p \<in> set (map abs xs)" using ne by (intro Max_in) auto
  then obtain x where x: "x \<in> set xs" "\<bar>x\<bar> = ?p" by auto
  show ?thesis
  proof (rule Max_eqI)
    show "finite (set (map abs (map (\<lambda>x. x / ?p) xs)))" by simp
  next
    fix y assume "y \<in> set (map abs (map (\<lambda>x. x / ?p) xs))"
    then obtain z where z: "z \<in> set xs" "y = \<bar>z / ?p\<bar>" by auto
    have "\<bar>z\<bar> \<le> ?p" using z(1) by (intro Max_ge) auto
    then have "\<bar>z\<bar> / ?p \<le> 1" using pos by (simp add: divide_le_eq_1_pos)
    then show "y \<le> 1" using z(2) pos by (simp add: abs_divide)
  next
    have "\<bar>x / ?p\<bar> = 1" using x(2) pos by simp
    then show "1 \<in> set (map abs (map (\<lambda>x. x / ?p) xs))" using x(1) by force
  qed
qed

lemma abs_np_mean_le:
  assumes "\<forall>x\<in>set r. \<bar>x\<bar> \<le> (1::real)"
  shows "\<bar>np_mean r\<bar> \<le> 1"
proof (cases "r = []")
  case True then show ?thesis by (simp add: np_mean_def)
next
  case False
  have "\<bar>sum_list r\<bar> \<le> sum_list (map abs r)" by (rule sum_list_abs)
  also have "\<dots> \<le> sum_list (map (\<lambda>_. 1) r)" using assms by (intro sum_list_mono) auto
  also have "\<dots> = real (length r)" by (simp add: sum_list_triv)
  finally show ?thesis using False by (simp add: np_mean_def field_simps)
qed


lemma normalize_audio_Arr1:
  assumes "xs \<noteq> []"
  shows "normalize_audio (Arr1 xs) =
           Inr (Arr1 (if 0 < Max (set (map abs xs))
                      then map (\<lambda>x. x / Max (set (map abs xs))) xs else xs))"
  using assms by (simp add: normalize_audio_def np_max_abs_def bind_err_def)

lemma normalize_audio_Arr2:
  assumes "concat rows \<noteq> []"
  shows "normalize_audio (Arr2 rows) =
           Inr (Arr2 (if 0 < Max (set (map abs (concat rows)))
                      then map (map (\<lambda>x. x / Max (set (map abs (concat rows))))) rows
                      else rows))"
  using assms by (simp add: normalize_audio_def np_max_abs_def bind_err_def)

lemma peak_nonneg:
  fixes xs :: "real list"
  assumes "xs \<noteq> []"
  shows "0 \<le> Max (set (map abs xs))"
proof -
  obtain x where "x \<in> set xs" using assms by (cases xs) auto
  then have "\<bar>x\<bar> \<le> Max (set (map abs xs))" by (intro Max_ge) auto
  then show ?thesis by linarith
qed

lemma entries_le_peak:
  fixes xs :: "real list"
  assumes "x \<in> set xs"
  shows "\<bar>x\<bar> \<le> Max (set (map abs xs))"
  using assms by (intro Max_ge) auto

lemma normalize_mono_agrees:
  assumes "xs \<noteq> []"
  shows "normalize_steps (Arr1 xs) = Inr (Arr1 (spec_normalize (Arr1 xs)))"
proof -
  have "0 \<le> Max (set (map abs xs))" using assms by (rule peak_nonneg)
  then have "(Max (set (map abs xs)) \<noteq> 0) = (0 < Max (set (map abs xs)))" by linarith
  then show ?thesis
    using assms
    by (simp add: normalize_steps_def normalize_audio_Arr1 bind_err_def spec_normalize_def)
qed

lemma normalize_mono_peak:
  assumes "\<exists>x\<in>set xs. x \<noteq> 0"
  shows "\<exists>ys. normalize_steps (Arr1 xs) = Inr (Arr1 ys) \<and> length ys = length xs
              \<and> Max (set (map abs ys)) = 1"
proof -
  define ys where "ys = map (\<lambda>x. x / Max (set (map abs xs))) xs"
  have ne: "xs \<noteq> []" using assms by auto
  have pos: "0 < Max (set (map abs xs))" using assms by (rule peak_pos)
  have 1: "normalize_steps (Arr1 xs) = Inr (Arr1 ys)"
    unfolding ys_def using ne pos
    by (simp add: normalize_steps_def normalize_audio_Arr1 bind_err_def)
  have 2: "Max (set (map abs ys)) = 1"
    unfolding ys_def using assms by (rule peak_scaled)
  have 3: "length ys = length xs" by (simp add: ys_def)
  from 1 2 3 show ?thesis by blast
qed

lemma normalize_mono_silent:
  assumes "xs \<noteq> []" "\<forall>x\<in>set xs. x = 0"
  shows "normalize_steps (Arr1 xs) = Inr (Arr1 xs)"
proof -
  have "Max (set (map abs xs)) = 0" using assms by (rule peak_zero)
  then show ?thesis
    using assms(1) by (simp add: normalize_steps_def normalize_audio_Arr1 bind_err_def)
qed

text \<open>
  On a two-dimensional array, which the decoder never delivers, the two steps in the
  source's order scale by the peak over all channels before averaging.
\<close>

lemma normalize_multi:
  assumes "concat rows \<noteq> []"
  shows "\<exists>ys. normalize_steps (Arr2 rows) = Inr (Arr1 ys)
           \<and> ys = map np_mean
                    (if 0 < Max (set (map abs (concat rows)))
                     then map (map (\<lambda>x. x / Max (set (map abs (concat rows))))) rows
                     else rows)
           \<and> (\<forall>y\<in>set ys. \<bar>y\<bar> \<le> 1)"
proof -
  let ?p = "Max (set (map abs (concat rows)))"
  let ?rows' = "if 0 < ?p then map (map (\<lambda>x. x / ?p)) rows else rows"
  have steps: "normalize_steps (Arr2 rows) = Inr (Arr1 (map np_mean ?rows'))"
    using assms by (simp add: normalize_steps_def normalize_audio_Arr2 bind_err_def)
  have small: "\<bar>x\<bar> \<le> 1" if r: "r \<in> set ?rows'" and x: "x \<in> set r" for r x
  proof (cases "0 < ?p")
    case True
    from r True obtain r0 where r0: "r0 \<in> set rows" "r = map (\<lambda>x. x / ?p) r0" by auto
    from x r0 obtain z where z: "z \<in> set r0" "x = z / ?p" by auto
    have "z \<in> set (concat rows)" using z(1) r0(1) by auto
    then have "\<bar>z\<bar> \<le> ?p" by (rule entries_le_peak)
    then have "\<bar>z\<bar> / ?p \<le> 1" using True by (simp add: divide_le_eq_1_pos)
    then show ?thesis using z(2) True by (simp add: abs_divide)
  next
    case False
    have "x \<in> set (concat rows)" using r x False by auto
    then have "\<bar>x\<bar> \<le> ?p" by (rule entries_le_peak)
    with False show ?thesis by linarith
  qed
  have "\<forall>y\<in>set (map np_mean ?rows'). \<bar>y\<bar> \<le> 1"
  proof
    fix y assume "y \<in> set (map np_mean ?rows')"
    then obtain r where r: "r \<in> set ?rows'" "y = np_mean r" by auto
    have "\<forall>x\<in>set r. \<bar>x\<bar> \<le> 1" using small [OF r(1)] by blast
    then show "\<bar>y\<bar> \<le> 1" unfolding r(2) by (rule abs_np_mean_le)
  qed
  with steps show ?thesis by blast
qed

lemma process_audio_steps:
  assumes "process_audio librosa_load self b = Inr (a, sr)"
  shows "\<exists>xs. librosa_load b (sample_rate self) = Inr xs
            \<and> normalize_steps (Arr1 xs) = Inr a \<and> sr = sample_rate self"
proof (cases "librosa_load b (sample_rate self)")
  case (Inl e)
  with assms show ?thesis
    by (simp add: process_audio_def convert_to_wav_def reraise_def bind_err_def)
next
  case (Inr xs)
  show ?thesis
  proof (cases "normalize_steps (Arr1 xs)")
    case (Inl e)
    with Inr assms show ?thesis
      by (simp add: process_audio_def convert_to_wav_def reraise_def bind_err_def)
  next
    case inner: (Inr a')
    with Inr assms show ?thesis
      by (simp add: process_audio_def convert_to_wav_def reraise_def bind_err_def)
  qed
qed

lemma normalize_steps_empty: "normalize_steps (Arr1 []) = Inl (ValueError ZeroSizeReduction)"
  by (simp add: normalize_steps_def normalize_audio_def np_max_abs_def bind_err_def)

lemma normalize_steps_mono:
  "normalize_steps (Arr1 xs) =
     (if xs = [] then Inl (ValueError ZeroSizeReduction)
      else Inr (Arr1 (spec_normalize (Arr1 xs))))"
  using normalize_steps_empty normalize_mono_agrees [of xs] by simp

lemma process_audio_decoded:
  assumes "librosa_load b (sample_rate self) = Inr xs"
  shows "process_audio librosa_load self b =
           (if xs = [] then Inl (Wrapped ''Audio processing error'' (ValueError ZeroSizeReduction))
            else Inr (Arr1 (spec_normalize (Arr1 xs)), sample_rate self))"
  using assms
  by (simp add: process_audio_def convert_to_wav_def reraise_def bind_err_def
        normalize_steps_mono)

lemma process_audio_undecoded:
  assumes "librosa_load b (sample_rate self) = Inl e"
  shows "process_audio librosa_load self b =
           Inl (Wrapped ''Audio processing error'' (Wrapped ''Audio format conversion error'' e))"
  using assms
  by (simp add: process_audio_def convert_to_wav_def reraise_def bind_err_def)

lemma process_audio_nonempty:
  assumes "process_audio librosa_load self b = Inr (a, sr)"
  shows "\<exists>ys. a = Arr1 ys \<and> ys \<noteq> [] \<and> sr = sample_rate self
           \<and> (Max (set (map abs ys)) = 1 \<or> (\<forall>y\<in>set ys. y = 0))"
proof -
  from process_audio_steps [OF assms] obtain xs where
    steps: "normalize_steps (Arr1 xs) = Inr a" and sr: "sr = sample_rate self"
    by blast
  have ne: "xs \<noteq> []" using steps normalize_steps_empty by auto
  show ?thesis
  proof (cases "\<exists>x\<in>set xs. x \<noteq> 0")
    case True
    from normalize_mono_peak [OF True] obtain ys where
      ys: "normalize_steps (Arr1 xs) = Inr (Arr1 ys)" "length ys = length xs"
          "Max (set (map abs ys)) = 1"
      by blast
    from ys(1) steps have a: "a = Arr1 ys" by simp
    from ys(2) ne have "ys \<noteq> []" by auto
    with a sr ys(3) show ?thesis by blast
  next
    case False
    then have zero: "\<forall>x\<in>set xs. x = 0" by blast
    from ne zero have "normalize_steps (Arr1 xs) = Inr (Arr1 xs)"
      by (rule normalize_mono_silent)
    with steps have a: "a = Arr1 xs" by simp
    with ne sr zero show ?thesis by blast
  qed
qed

text \<open>
  Claim C3, as stated, fails on the waveform without samples, which is all zero: the peak
  \<^verbatim>\<open>np.max(np.abs(audio_array))\<close> of an empty array raises \<open>ValueError\<close>, so the waveform
  is not returned unchanged; \<^verbatim>\<open>process_audio\<close> reports an audio processing error. The
  normalizer of the specification returns it as it is.
\<close>

theorem normalize_empty_counterexample:
  "normalize_steps (Arr1 []) = Inl (ValueError ZeroSizeReduction)
   \<and> process_audio (\<lambda>b sr. Inr []) AudioProcessor [82, 73, 70, 70]
       = Inl (Wrapped ''Audio processing error'' (ValueError ZeroSizeReduction))
   \<and> spec_normalize (Arr1 []) = []"
  by (simp add: normalize_steps_def normalize_audio_def np_max_abs_def bind_err_def
        process_audio_def convert_to_wav_def reraise_def spec_normalize_def)

text \<open>
  Claim C3, amended. The decoder delivers mono waveforms only (it is called with
  \<^verbatim>\<open>mono=True\<close>). On every such waveform with at least one sample, normalization returns
  what the steps in the stated order return: downmix to mono by per-sample averaging, which
  leaves a mono waveform as it is, then division of every sample by the peak absolute
  amplitude when that peak is nonzero. Consequently, for every waveform containing at least
  one nonzero sample the output's maximum absolute sample value is exactly 1, and an
  all-zero waveform with at least one sample is returned unchanged. On the waveform without
  samples normalization raises \<open>ValueError\<close>, which \<^verbatim>\<open>process_audio\<close> reports as an audio
  processing error, as it reports a failure of the decoder; whatever \<^verbatim>\<open>process_audio\<close>
  returns is a non-empty mono waveform at the processor's sample rate, with peak exactly 1
  or all zero.
\<close>

theorem normalize_decoded_waveform:
  "normalize_steps (Arr1 xs) =
     (if xs = [] then Inl (ValueError ZeroSizeReduction)
      else Inr (Arr1 (spec_normalize (Arr1 xs))))
   \<and> ((\<exists>x\<in>set xs. x \<noteq> 0) \<longrightarrow>
        (\<exists>ys. normalize_steps (Arr1 xs) = Inr (Arr1 ys) \<and> length ys = length xs
              \<and> Max (set (map abs ys)) = 1))
   \<and> (xs \<noteq> [] \<and> (\<forall>x\<in>set xs. x = 0) \<longrightarrow> normalize_steps (Arr1 xs) = Inr (Arr1 xs))
   \<and> (librosa_load b (sample_rate self) = Inr xs \<longrightarrow>
        process_audio librosa_load self b =
          (if xs = [] then Inl (Wrapped ''Audio processing error'' (ValueError ZeroSizeReduction))
           else Inr (Arr1 (spec_normalize (Arr1 xs)), sample_rate self)))
   \<and> (librosa_load b (sample_rate self) = Inl e \<longrightarrow>
        process_audio librosa_load self b =
          Inl (Wrapped ''Audio processing error'' (Wrapped ''Audio format conversion error'' e)))
   \<and> (process_audio librosa_load self b = Inr (a, sr) \<longrightarrow>
        (\<exists>ys. a = Arr1 ys \<and> ys \<noteq> [] \<and> sr = sample_rate self
           \<and> (Max (set (map abs ys)) = 1 \<or> (\<forall>y\<in>set ys. y = 0))))"
proof (intro conjI impI)
  show "normalize_steps (Arr1 xs) =
     (if xs = [] then Inl (ValueError ZeroSizeReduction)
      else Inr (Arr1 (spec_normalize (Arr1 xs))))"
    by (rule normalize_steps_mono)
next
  assume "\<exists>x\<in>set xs. x \<noteq> 0"
  then show "\<exists>ys. normalize_steps (Arr1 xs) = Inr (Arr1 ys) \<and> length ys = length xs
              \<and> Max (set (map abs ys)) = 1"
    by (rule normalize_mono_peak)
next
  assume "xs \<noteq> [] \<and> (\<forall>x\<in>set xs. x = 0)"
  then show "normalize_steps (Arr1 xs) = Inr (Arr1 xs)"
    using normalize_mono_silent [of xs] by blast
next
  assume "librosa_load b (sample_rate self) = Inr xs"
  then show "process_audio librosa_load self b =
          (if xs = [] then Inl (Wrapped ''Audio processing error'' (ValueError ZeroSizeReduction))
           else Inr (Arr1 (spec_normalize (Arr1 xs)), sample_rate self))"
    by (rule process_audio_decoded)
next
  assume "librosa_load b (sample_rate self) = Inl e"
  then show "process_audio librosa_load self b =
          Inl (Wrapped ''Audio processing error'' (Wrapped ''Audio format conversion error'' e))"
    by (rule process_audio_undecoded)
next
  assume "process_audio librosa_load self b = Inr (a, sr)"
  then show "\<exists>ys. a = Arr1 ys \<and> ys \<noteq> [] \<and> sr = sample_rate self
           \<and> (Max (set (map abs ys)) = 1 \<or> (\<forall>y\<in>set ys. y = 0))"
    by (rule process_audio_nonempty)
qed

theorem normalize_decoded_waveform_witness:
  "normalize_steps (Arr1 [2, - 4]) = Inr (Arr1 [1 / 2, - 1])
   \<and> Max (set (map abs [1 / 2, - 1 :: real])) = 1
   \<and> normalize_steps (Arr1 [0, 0]) = Inr (Arr1 [0, 0])
   \<and> process_audio (\<lambda>b sr. Inr [2, - 4]) AudioProcessor [82, 73, 70, 70]
       = Inr (Arr1 [1 / 2, - 1], 22050)
   \<and> process_audio (\<lambda>b sr. Inl (LibraryError ''NoBackendError'')) AudioProcessor [82, 73, 70, 70]
       = Inl (Wrapped ''Audio processing error''
               (Wrapped ''Audio format conversion error'' (LibraryError ''NoBackendError'')))"
  using normalize_decoded_waveform [of "[2, - 4]" "\<lambda>b sr. Inr [2, - 4]" "[82, 73, 70, 70]" AudioProcessor
              "LibraryError ''NoBackendError''" "Arr1 [1 / 2, - 1]" 22050]
        normalize_decoded_waveform [of "[0, 0]" "\<lambda>b sr. Inl (LibraryError ''NoBackendError'')" "[82, 73, 70, 70]"
              AudioProcessor "LibraryError ''NoBackendError''" "Arr1 []" 0]
  by (simp add: spec_normalize_def AudioProcessor_def SAMPLE_RATE_def)

section \<open>Explanations\<close>

lemma feature_index_values:
  "feature_index ''Pitch Std'' = 14"
  "feature_index ''Spectral Flatness Mean'' = 26"
  "feature_index ''RMS Std'' = 19"
  "feature_index ''Tempo'' = 34"
  "feature_index ''Harmonic Ratio'' = 37"
  "feature_index ''Onset Std'' = 33"
  "feature_index ''Autocorr Std'' = 36"
  by (simp_all add: feature_index_def FEATURE_NAMES_def)

lemma explain_ai_voice_spec:
  assumes "length features = 39"
  shows "explain_ai_voice confidence features tf = Inr (spec_explain AI_GENERATED confidence features)"
  using assms
  by (simp add: explain_ai_voice_def item_def bind_err_def spec_explain_def spec_matching_def
        spec_strength_def feature_index_values Let_def)

lemma explain_human_voice_spec:
  assumes "length features = 39"
  shows "explain_human_voice confidence features tf = Inr (spec_explain HUMAN confidence features)"
  using assms
  by (simp add: explain_human_voice_def item_def bind_err_def spec_explain_def spec_matching_def
        spec_strength_def feature_index_values Let_def)


lemma bind_err_InrD:
  assumes "bind_err m k = Inr s"
  obtains x where "m = Inr x" "k x = Inr s"
  using assms by (cases m) (simp_all add: bind_err_def)

lemma explain_ai_voice_nonempty:
  assumes "explain_ai_voice confidence features tf = Inr s"
  shows "s \<noteq> []"
proof -
  from assms obtain strength phrases where
    "s = strength @ '' indicators of AI generation: '' @ phrases"
    unfolding explain_ai_voice_def Let_def
    by (elim bind_err_InrD) (simp only: sum.inject, blast)
  then show ?thesis by simp
qed

lemma explain_human_voice_nonempty:
  assumes "explain_human_voice confidence features tf = Inr s"
  shows "s \<noteq> []"
proof -
  from assms obtain strength phrases where
    "s = strength @ '' indicators of human voice: '' @ phrases"
    unfolding explain_human_voice_def Let_def
    by (elim bind_err_InrD) (simp only: sum.inject, blast)
  then show ?thesis by simp
qed

lemma generate_explanation_total:
  "\<exists>s. generate_explanation percent classification confidence features tf = Inr s \<and> s \<noteq> []"
proof (cases "if classification = ''AI_GENERATED''
            then explain_ai_voice confidence features tf
            else explain_human_voice confidence features tf")
  case (Inl e)
  then show ?thesis by (simp add: generate_explanation_def)
next
  case (Inr s)
  then have "s \<noteq> []"
    using explain_ai_voice_nonempty explain_human_voice_nonempty by (auto split: if_splits)
  with Inr show ?thesis by (simp add: generate_explanation_def)
qed

text \<open>
  Claim C7. For either label, every confidence and every 39-element feature vector, the
  explainer returns the sentence of the rule table: the label's cues are tested in the fixed
  order (for AI_GENERATED: pitch std < 20, spectral-flatness mean < 0.1, RMS std < 0.05,
  tempo strictly between 100 and 140, harmonic ratio > 0.7), at most the first three
  matching phrases are kept, the label's generic phrase stands in when no cue matches, the
  adjective is Strong above 0.9, Clear above 0.7 and Moderate otherwise, and the result is
  "{Strength} indicators of {label-phrase}: {phrases joined by ", "}".
\<close>

theorem explanation_follows_rule_table:
  assumes "length features = 39"
  shows "generate_explanation percent (label_str l) confidence features tf =
           Inr (spec_explain l confidence features)"
  using assms
  by (cases l) (simp_all add: generate_explanation_def explain_ai_voice_spec explain_human_voice_spec)

theorem explanation_follows_rule_table_witness:
  "length (replicate 39 (0::real)) = 39
   \<and> generate_explanation (\<lambda>c. ''95.00%'') ''AI_GENERATED'' (95 / 100) (replicate 39 0) None =
       Inr ''Strong indicators of AI generation: unnatural pitch consistency, minimal spectral variations, uniform energy distribution''
   \<and> generate_explanation (\<lambda>c. ''50.00%'') ''HUMAN'' (1 / 2) (replicate 39 0) None =
       Inr ''Moderate indicators of human voice: human voice characteristics detected''
   \<and> length (replicate 34 (0::real) @ [120, 0, 0, 1, 0]) = 39
   \<and> generate_explanation (\<lambda>c. ''80.00%'') ''AI_GENERATED'' (8 / 10)
         (replicate 34 0 @ [120, 0, 0, 1, 0]) None =
       Inr ''Clear indicators of AI generation: unnatural pitch consistency, minimal spectral variations, uniform energy distribution''"
  using explanation_follows_rule_table
          [of "replicate 39 0" "\<lambda>c. ''95.00%''" AI_GENERATED "95 / 100" None]
        explanation_follows_rule_table
          [of "replicate 39 0" "\<lambda>c. ''50.00%''" HUMAN "1 / 2" None]
        explanation_follows_rule_table
          [of "replicate 34 0 @ [120, 0, 0, 1, 0]" "\<lambda>c. ''80.00%''" AI_GENERATED "8 / 10" None]
  by (simp add: spec_explain_def spec_matching_def spec_strength_def feature_index_values
        nth_append)

text \<open>
  Claim C8. For every classification string, confidence and feature vector (the 39-element
  ones in particular) \<^verbatim>\<open>generate_explanation\<close> returns, and what it returns is not the
  empty string. On a 39-element vector no internal fault occurs and the rule sentence is
  returned; whenever the rule function of the label does fail, the result is the templated
  sentence made of the classification and the formatted confidence only.
\<close>

theorem explanation_never_fails:
  "(\<exists>s. generate_explanation percent classification confidence features tf = Inr s \<and> s \<noteq> [])
   \<and> (length features = 39 \<longrightarrow>
        (\<exists>s. (if classification = ''AI_GENERATED''
               then explain_ai_voice confidence features tf
               else explain_human_voice confidence features tf) = Inr s
            \<and> generate_explanation percent classification confidence features tf = Inr s))
   \<and> ((if classification = ''AI_GENERATED''
        then explain_ai_voice confidence features tf
        else explain_human_voice confidence features tf) = Inl e \<longrightarrow>
        generate_explanation percent classification confidence features tf =
          Inr (''Voice classified as '' @ classification @ '' with '' @ percent confidence
               @ '' confidence''))"
proof (intro conjI impI)
  show "\<exists>s. generate_explanation percent classification confidence features tf = Inr s \<and> s \<noteq> []"
    by (rule generate_explanation_total)
next
  assume "length features = 39"
  then show "\<exists>s. (if classification = ''AI_GENERATED''
               then explain_ai_voice confidence features tf
               else explain_human_voice confidence features tf) = Inr s
            \<and> generate_explanation percent classification confidence features tf = Inr s"
    by (simp add: generate_explanation_def explain_ai_voice_spec explain_human_voice_spec)
next
  assume "(if classification = ''AI_GENERATED''
        then explain_ai_voice confidence features tf
        else explain_human_voice confidence features tf) = Inl e"
  then show "generate_explanation percent classification confidence features tf =
          Inr (''Voice classified as '' @ classification @ '' with '' @ percent confidence
               @ '' confidence'')"
    by (simp add: generate_explanation_def)
qed

theorem explanation_never_fails_witness:
  "length (replicate 39 (0::real)) = 39
   \<and> generate_explanation (\<lambda>c. ''50.00%'') ''HUMAN'' (1 / 2) (replicate 39 0) None =
       Inr ''Moderate indicators of human voice: human voice characteristics detected''
   \<and> explain_ai_voice (97 / 100) [1, 2, 3] None = Inl IndexError
   \<and> generate_explanation (\<lambda>c. ''97.00%'') ''AI_GENERATED'' (97 / 100) [1, 2, 3] None =
       Inr ''Voice classified as AI_GENERATED with 97.00% confidence''"
  using explanation_never_fails
          [of "\<lambda>c. ''50.00%''" "''HUMAN''" "1 / 2" "replicate 39 0" None IndexError]
        explanation_never_fails
          [of "\<lambda>c. ''97.00%''" "''AI_GENERATED''" "97 / 100" "[1, 2, 3]" None IndexError]
  by (simp add: explain_ai_voice_def explain_human_voice_def item_def bind_err_def)

section \<open>Prediction\<close>

lemma item_InrD:
  assumes "item xs i = Inr x"
  shows "i < length xs \<and> x = xs ! i"
  using assms by (simp add: item_def split: if_splits)

lemma predict_try_rule:
  assumes "predict_try self features = Inr (classification, confidence, probabilities)"
  shows "2 \<le> length probabilities
    \<and> (classification = ''AI_GENERATED'' \<longleftrightarrow> probabilities ! 1 > probabilities ! 0)
    \<and> (classification = ''HUMAN'' \<longleftrightarrow> \<not> probabilities ! 1 > probabilities ! 0)
    \<and> confidence = (if classification = ''AI_GENERATED'' then probabilities ! 1
                     else probabilities ! 0)"
proof -
  from assms obtain ps human_prob ai_prob where
    h: "item ps 0 = Inr human_prob" and a: "item ps 1 = Inr ai_prob" and
    r: "(if ai_prob > human_prob then Inr (''AI_GENERATED'', ai_prob, ps)
         else Inr (''HUMAN'', human_prob, ps))
        = (Inr (classification, confidence, probabilities) :: error + string \<times> real \<times> real list)"
    unfolding predict_try_def Let_def by (elim bind_err_InrD) blast
  from item_InrD [OF h] item_InrD [OF a] have
    vals: "1 < length ps" "human_prob = ps ! 0" "ai_prob = ps ! 1" by simp_all
  show ?thesis
  proof (cases "ai_prob > human_prob")
    case True
    with r have "classification = ''AI_GENERATED''" "confidence = ai_prob" "probabilities = ps"
      by simp_all
    with True vals show ?thesis by simp
  next
    case False
    with r have "classification = ''HUMAN''" "confidence = human_prob" "probabilities = ps"
      by simp_all
    with False vals show ?thesis by simp
  qed
qed

lemma predict_InrD:
  assumes "fst (predict env self features) = Inr res"
  shows "\<exists>self'. predict_try self' features = Inr res \<and> snd (predict env self features) = self'
           \<and> (if is_loaded self then self' = self else load_model env self = Inr self')"
proof (cases "if \<not> is_loaded self then load_model env self else Inr self")
  case (Inl e)
  with assms show ?thesis by (simp add: predict_def)
next
  case (Inr self')
  with assms have "reraise ''Model prediction error'' (predict_try self' features) = Inr res"
    by (simp add: predict_def)
  then have "predict_try self' features = Inr res"
    by (cases "predict_try self' features") (simp_all add: reraise_def)
  moreover have "snd (predict env self features) = self'"
    using Inr by (simp add: predict_def)
  ultimately show ?thesis using Inr by (auto split: if_splits)
qed



section \<open>Top features\<close>

lemma slice_from_neg_pos:
  assumes "1 \<le> n"
  shows "slice_from_neg n xs = drop (length xs - nat n) xs"
proof -
  have "nat (max 0 (- n + int (length xs))) = length xs - nat n" using assms by linarith
  then show ?thesis using assms by (simp add: slice_from_neg_def Let_def)
qed

lemma traverse_all_Inr:
  assumes "\<forall>x\<in>set xs. f x = Inr (g x)"
  shows "traverse f xs = Inr (map g xs)"
  using assms by (induction xs) (simp_all add: bind_err_def)

lemma argsort_length:
  assumes "distinct as" "set as = {..<n}"
  shows "length as = n"
proof -
  have "length as = card (set as)" using assms(1) by (simp add: distinct_card)
  then show ?thesis using assms(2) by simp
qed

lemma top_entries:
  assumes "set tops \<subseteq> {..<length w}" "length w \<le> length features"
  shows "traverse (\<lambda>idx.
              bind_err (item features idx) (\<lambda>feature_value.
              bind_err (item w idx) (\<lambda>imp.
                Inr (idx, feature_value, imp)))) tops
         = Inr (map (\<lambda>i. (i, features ! i, w ! i)) tops)"
proof (rule traverse_all_Inr, rule ballI)
  fix x assume "x \<in> set tops"
  then have "x < length w" "x < length features" using assms by auto
  then show "bind_err (item features x) (\<lambda>feature_value.
              bind_err (item w x) (\<lambda>imp. Inr (x, feature_value, imp)))
             = Inr (x, features ! x, w ! x)"
    by (simp add: item_def bind_err_def)
qed

lemma top_of_sorted:
  fixes w :: "real list" and k :: nat and ord :: "nat list"
  assumes srt: "sorted (map (\<lambda>i. w ! i) ord)" and d: "distinct ord"
      and st: "set ord = {..<length w}"
  defines "tops \<equiv> rev (drop (length w - k) ord)"
  shows "length tops = min k (length w)" "distinct tops" "set tops \<subseteq> {..<length w}"
        "sorted (rev (map (\<lambda>i. w ! i) tops))"
        "\<forall>j<length w. j \<notin> set tops \<longrightarrow> (\<forall>i\<in>set tops. w ! j \<le> w ! i)"
proof -
  have len: "length ord = length w" using d st by (rule argsort_length)
  show "length tops = min k (length w)" using len by (simp add: tops_def)
  show "distinct tops" using d by (simp add: tops_def)
  show "set tops \<subseteq> {..<length w}" using st set_drop_subset [of "length w - k" ord]
    by (simp add: tops_def)
  have "sorted (drop (length w - k) (map (\<lambda>i. w ! i) ord))" using srt by (rule sorted_wrt_drop)
  then show "sorted (rev (map (\<lambda>i. w ! i) tops))" by (simp add: tops_def rev_map drop_map)
  have split: "ord = take (length w - k) ord @ drop (length w - k) ord" by simp
  have "sorted (map (\<lambda>i. w ! i) (take (length w - k) ord) @ map (\<lambda>i. w ! i) (drop (length w - k) ord))"
    using srt by (simp flip: map_append)
  then have le: "\<forall>a\<in>set (take (length w - k) ord). \<forall>b\<in>set (drop (length w - k) ord). w ! a \<le> w ! b"
    by (simp add: sorted_append)
  show "\<forall>j<length w. j \<notin> set tops \<longrightarrow> (\<forall>i\<in>set tops. w ! j \<le> w ! i)"
  proof (intro allI impI ballI)
    fix j i assume j: "j < length w" "j \<notin> set tops" and i: "i \<in> set tops"
    have "j \<in> set ord" using j(1) st by simp
    then have "j \<in> set (take (length w - k) ord) \<union> set (drop (length w - k) ord)"
      by (metis split set_append)
    with j(2) have "j \<in> set (take (length w - k) ord)" by (simp add: tops_def)
    moreover have "i \<in> set (drop (length w - k) ord)" using i by (simp add: tops_def)
    ultimately show "w ! j \<le> w ! i" using le by blast
  qed
qed

lemma rev_drop_nth:
  assumes "length ord = l" "k < min m l"
  shows "rev (drop (l - m) ord) ! k = ord ! (l - Suc k)"
proof -
  have len: "length (drop (l - m) ord) = min m l" using assms(1) by auto
  have "rev (drop (l - m) ord) ! k = drop (l - m) ord ! (min m l - Suc k)"
    using assms(2) len by (simp add: rev_nth)
  also have "\<dots> = ord ! ((l - m) + (min m l - Suc k))"
    using assms by (intro nth_drop) simp
  also have "(l - m) + (min m l - Suc k) = l - Suc k" using assms(2) by auto
  finally show ?thesis .
qed

lemma get_top_features_present:
  assumes imp: "feature_importance self = Some w"
      and srt: "sorted (map (\<lambda>i. w ! i) (argsort w))" and d: "distinct (argsort w)"
      and st: "set (argsort w) = {..<length w}"
      and len: "length w \<le> length features" and n: "1 \<le> n"
  shows "\<exists>tops. get_top_features argsort self features n =
                 Inr (map (\<lambda>i. (i, features ! i, w ! i)) tops)
           \<and> tops = rev (drop (length w - nat n) (argsort w))
           \<and> (\<forall>k<length tops. tops ! k = argsort w ! (length w - Suc k))
           \<and> length tops = min (nat n) (length w) \<and> distinct tops \<and> set tops \<subseteq> {..<length w}
           \<and> sorted (rev (map (\<lambda>i. w ! i) tops))
           \<and> (\<forall>j<length w. j \<notin> set tops \<longrightarrow> (\<forall>i\<in>set tops. w ! j \<le> w ! i))"
proof -
  define tops where "tops = rev (drop (length w - nat n) (argsort w))"
  note facts = top_of_sorted [OF srt d st, of "nat n", folded tops_def]
  have lenas: "length (argsort w) = length w" using d st by (rule argsort_length)
  have pos: "\<forall>k<length tops. tops ! k = argsort w ! (length w - Suc k)"
    using rev_drop_nth [OF lenas, of _ "nat n"] facts(1) by (simp add: tops_def)
  have "get_top_features argsort self features n =
          traverse (\<lambda>idx.
              bind_err (item features idx) (\<lambda>feature_value.
              bind_err (item w idx) (\<lambda>imp.
                Inr (idx, feature_value, imp)))) tops"
    using imp n lenas by (simp add: get_top_features_def slice_from_neg_pos tops_def)
  also have "\<dots> = Inr (map (\<lambda>i. (i, features ! i, w ! i)) tops)"
    using facts(3) len by (rule top_entries)
  finally show ?thesis using facts pos tops_def by blast
qed

lemma get_top_features_absent:
  assumes "feature_importance self = None \<or>
           (feature_importance self = Some [] \<and> argsort [] = [])"
  shows "get_top_features argsort self features n = Inr []"
  using assms by (auto simp: get_top_features_def slice_from_neg_def Let_def)


text \<open>
  Claim C4, as stated, fails in two ways. With \<open>n = 0\<close> the slice \<^verbatim>\<open>[-0:]\<close> is the whole
  array, so all features are returned instead of none. And the descending order is the
  reversal of an ascending argsort, so with an argsort that keeps equal values in their
  original order the higher index comes first among equal importances: for the importances
  1/2, 1/2 and \<open>n = 1\<close> the feature returned is index 1, not index 0.
\<close>

theorem top_features_counterexample:
  "get_top_features stable_argsort
     (VoiceDetectionModel\<lparr>feature_importance := Some [3 / 10, 7 / 10]\<rparr>) [10, 20] 0
     = Inr [(1, 20, 7 / 10), (0, 10, 3 / 10)]
   \<and> get_top_features stable_argsort
     (VoiceDetectionModel\<lparr>feature_importance := Some [1 / 2, 1 / 2]\<rparr>) [10, 20] 1
     = Inr [(1, 20, 1 / 2)]"
  by (simp add: get_top_features_def stable_argsort_def upt_rec slice_from_neg_def
        VoiceDetectionModel_def item_def bind_err_def)

text \<open>
  Claim C4, amended. When the importance weighting is present, the feature vector is at
  least as long as the weighting and \<open>n \<ge> 1\<close>, \<^verbatim>\<open>get_top_features\<close> returns
  \<open>min n (number of weights)\<close> entries: distinct feature indices, none outside having a
  larger importance than one inside, in descending order of importance, each paired with
  the vector's value at that index and the importance weight. The entries are the last
  positions of argsort's ascending order, reversed: entry \<open>k\<close> (from 0) is the position
  argsort puts at place \<open>number of weights - 1 - k\<close>, so the order among equal importances
  is the reverse of the one argsort leaves. When the weighting is absent, or empty, the
  result is the empty list for every \<open>n\<close>.
\<close>

theorem top_features_ranking:
  "(feature_importance self = None \<or> (feature_importance self = Some [] \<and> argsort [] = [])
      \<longrightarrow> get_top_features argsort self features m = Inr [])
   \<and> (feature_importance self = Some w
        \<and> sorted (map (\<lambda>i. w ! i) (argsort w)) \<and> distinct (argsort w)
        \<and> set (argsort w) = {..<length w}
        \<and> length w \<le> length features \<and> 1 \<le> n
      \<longrightarrow> (\<exists>tops. get_top_features argsort self features n =
                     Inr (map (\<lambda>i. (i, features ! i, w ! i)) tops)
              \<and> tops = rev (drop (length w - nat n) (argsort w))
              \<and> (\<forall>k<length tops. tops ! k = argsort w ! (length w - Suc k))
              \<and> length tops = min (nat n) (length w) \<and> distinct tops
              \<and> set tops \<subseteq> {..<length w}
              \<and> sorted (rev (map (\<lambda>i. w ! i) tops))
              \<and> (\<forall>j<length w. j \<notin> set tops \<longrightarrow> (\<forall>i\<in>set tops. w ! j \<le> w ! i))))"
  using get_top_features_absent [of self argsort features m]
        get_top_features_present [of self w argsort features n]
  by blast

theorem top_features_ranking_witness:
  "get_top_features stable_argsort VoiceDetectionModel [10, 20, 30, 40] 5 = Inr []
   \<and> sorted (map (\<lambda>i. [1 / 10, 1 / 2, 3 / 10, 1 / 10 :: real] ! i)
              (stable_argsort [1 / 10, 1 / 2, 3 / 10, 1 / 10]))
   \<and> distinct (stable_argsort [1 / 10, 1 / 2, 3 / 10, 1 / 10])
   \<and> set (stable_argsort [1 / 10, 1 / 2, 3 / 10, 1 / 10]) = {..<4}
   \<and> get_top_features stable_argsort
        (VoiceDetectionModel\<lparr>feature_importance := Some [1 / 10, 1 / 2, 3 / 10, 1 / 10]\<rparr>)
        [10, 20, 30, 40] 2
      = Inr [(1, 20, 1 / 2), (2, 30, 3 / 10)]"
proof -
  have order: "stable_argsort [1 / 10, 1 / 2, 3 / 10, 1 / 10] = [0, 3, 2, 1]"
    by (simp add: stable_argsort_def upt_rec)
  have range: "set (stable_argsort [1 / 10, 1 / 2, 3 / 10, 1 / 10]) = {..<4}"
    unfolding order by auto
  have ascending: "sorted (map (\<lambda>i. [1 / 10, 1 / 2, 3 / 10, 1 / 10 :: real] ! i)
                     (stable_argsort [1 / 10, 1 / 2, 3 / 10, 1 / 10]))"
    unfolding order by simp
  have present: "feature_importance
         (VoiceDetectionModel\<lparr>feature_importance := Some [1 / 10, 1 / 2, 3 / 10, 1 / 10]\<rparr>)
       = Some [1 / 10, 1 / 2, 3 / 10, 1 / 10]" by simp
  have absent: "feature_importance VoiceDetectionModel = None"
    by (simp add: VoiceDetectionModel_def)
  from top_features_ranking [of VoiceDetectionModel stable_argsort "[10, 20, 30, 40]" 5] absent
  have none: "get_top_features stable_argsort VoiceDetectionModel [10, 20, 30, 40] 5 = Inr []"
    by blast
  have distinct: "distinct (stable_argsort [1 / 10, 1 / 2, 3 / 10, 1 / 10])"
    unfolding order by simp
  have hyps: "feature_importance
         (VoiceDetectionModel\<lparr>feature_importance := Some [1 / 10, 1 / 2, 3 / 10, 1 / 10]\<rparr>)
       = Some [1 / 10, 1 / 2, 3 / 10, 1 / 10]
     \<and> sorted (map (\<lambda>i. [1 / 10, 1 / 2, 3 / 10, 1 / 10 :: real] ! i)
                     (stable_argsort [1 / 10, 1 / 2, 3 / 10, 1 / 10]))
     \<and> distinct (stable_argsort [1 / 10, 1 / 2, 3 / 10, 1 / 10])
     \<and> set (stable_argsort [1 / 10, 1 / 2, 3 / 10, 1 / 10])
         = {..<length [1 / 10, 1 / 2, 3 / 10, 1 / 10 :: real]}
     \<and> length [1 / 10, 1 / 2, 3 / 10, 1 / 10 :: real] \<le> length [10, 20, 30, 40 :: real]
     \<and> 1 \<le> (2::int)"
    using present ascending distinct range by simp
  from top_features_ranking
          [of "VoiceDetectionModel\<lparr>feature_importance := Some [1 / 10, 1 / 2, 3 / 10, 1 / 10]\<rparr>"
              stable_argsort "[10, 20, 30, 40]" 5 "[1 / 10, 1 / 2, 3 / 10, 1 / 10]" 2,
           THEN conjunct2, THEN mp, OF hyps]
  obtain tops where
    res: "get_top_features stable_argsort
        (VoiceDetectionModel\<lparr>feature_importance := Some [1 / 10, 1 / 2, 3 / 10, 1 / 10]\<rparr>)
        [10, 20, 30, 40] 2
      = Inr (map (\<lambda>i. (i, [10, 20, 30, 40] ! i, [1 / 10, 1 / 2, 3 / 10, 1 / 10] ! i)) tops)"
    and tops: "tops = rev (drop (length [1 / 10, 1 / 2, 3 / 10, 1 / 10 :: real] - nat 2)
                         (stable_argsort [1 / 10, 1 / 2, 3 / 10, 1 / 10]))"
    by blast
  from tops have "tops = [1, 2]" unfolding order by simp
  with res have top2: "get_top_features stable_argsort
        (VoiceDetectionModel\<lparr>feature_importance := Some [1 / 10, 1 / 2, 3 / 10, 1 / 10]\<rparr>)
        [10, 20, 30, 40] 2
      = Inr [(1, 20, 1 / 2), (2, 30, 3 / 10)]"
    by simp
  from none ascending distinct range top2 show ?thesis by simp
qed

section \<open>Loading and the placeholder model\<close>

lemma take_rows_Inr:
  assumes "set indices \<subseteq> {..<length a}"
  shows "take_rows a indices = Inr (map (\<lambda>i. a ! i) indices)"
proof -
  have "list_all (\<lambda>i. i < length a) indices" using assms by (auto simp: list_all_iff)
  then show ?thesis by (simp add: take_rows_def)
qed

lemma dummy_training_set_shape:
  assumes ws: "draws_well_shaped env"
      and dr: "dummy_draws env = (ai_voices, human_voices, indices)"
  shows "dummy_training_set env =
           Inr (map (\<lambda>i. (ai_voices @ human_voices) ! i) indices,
                map (\<lambda>i. (replicate 200 0 @ replicate 200 1) ! i) indices)"
proof -
  from ws dr have shape: "length ai_voices = 200" "length human_voices = 200"
      "set indices = {..<400}"
    by (simp_all add: draws_well_shaped_def)
  have 1: "take_rows (ai_voices @ human_voices) indices =
             Inr (map (\<lambda>i. (ai_voices @ human_voices) ! i) indices)"
    by (rule take_rows_Inr) (simp add: shape)
  have 2: "take_rows (replicate 200 (0::nat) @ replicate 200 1) indices =
             Inr (map (\<lambda>i. (replicate 200 0 @ replicate 200 1) ! i) indices)"
    by (rule take_rows_Inr) (simp add: shape)
  show ?thesis
    by (simp only: dummy_training_set_def Let_def dr prod.case 1 2 bind_err_def sum.case)
qed

lemma dummy_training_set_labels:
  assumes ws: "draws_well_shaped env"
      and dr: "dummy_draws env = (ai_voices, human_voices, indices)"
  shows "\<exists>X y. dummy_training_set env = Inr (X, y) \<and> length X = 400 \<and> length y = 400
     \<and> (\<forall>k<400. (indices ! k < 200 \<longrightarrow> X ! k = ai_voices ! (indices ! k) \<and> y ! k = 0)
               \<and> (200 \<le> indices ! k \<longrightarrow>
                    X ! k = human_voices ! (indices ! k - 200) \<and> y ! k = 1))
     \<and> (\<forall>i<200. \<exists>k<400. X ! k = ai_voices ! i \<and> y ! k = 0)
     \<and> (\<forall>i<200. \<exists>k<400. X ! k = human_voices ! i \<and> y ! k = 1)"
proof -
  from ws dr have shape: "length ai_voices = 200" "length human_voices = 200"
      "distinct indices" "set indices = {..<400}"
    by (simp_all add: draws_well_shaped_def)
  have len: "length indices = 400" using shape(3,4) by (rule argsort_length)
  define X where "X = map (\<lambda>i. (ai_voices @ human_voices) ! i) indices"
  define y where "y = map (\<lambda>i. (replicate 200 (0::nat) @ replicate 200 1) ! i) indices"
  have ts: "dummy_training_set env = Inr (X, y)"
    unfolding X_def y_def using ws dr by (rule dummy_training_set_shape)
  have lens: "length X = 400" "length y = 400" by (simp_all add: X_def y_def len)
  have lo: "X ! k = ai_voices ! (indices ! k) \<and> y ! k = 0"
    if "k < 400" "indices ! k < 200" for k
    using that by (simp add: X_def y_def len nth_append shape)
  have hi: "X ! k = human_voices ! (indices ! k - 200) \<and> y ! k = 1"
    if "k < 400" "200 \<le> indices ! k" for k
  proof -
    have "indices ! k \<in> set indices" using that(1) len by simp
    then have "indices ! k < 400" using shape(4) by simp
    then show ?thesis using that by (simp add: X_def y_def len nth_append shape)
  qed
  have ai_all: "\<exists>k<400. X ! k = ai_voices ! i \<and> y ! k = 0" if "i < 200" for i
  proof -
    have "i \<in> set indices" using that shape(4) by simp
    then obtain k where k: "k < length indices" "indices ! k = i" by (auto simp: in_set_conv_nth)
    with lo [of k] that len show ?thesis by auto
  qed
  have hu_all: "\<exists>k<400. X ! k = human_voices ! i \<and> y ! k = 1" if "i < 200" for i
  proof -
    have "i + 200 \<in> set indices" using that shape(4) by simp
    then obtain k where k: "k < length indices" "indices ! k = i + 200"
      by (auto simp: in_set_conv_nth)
    with hi [of k] that len show ?thesis by auto
  qed
  from ts lens lo hi ai_all hu_all show ?thesis by blast
qed

lemma create_dummy_model_state:
  assumes "dummy_training_set env = Inr (X, y)"
  shows "create_dummy_model env self =
           Inr \<lparr>model = Some (forest_classifier (forest_fit env 100 10 42 X y)),
                scaler = None,
                feature_importance = Some (forest_feature_importances (forest_fit env 100 10 42 X y)),
                is_loaded = True\<rparr>"
  using assms by (simp add: create_dummy_model_def bind_err_def Let_def)

lemma create_dummy_model_total:
  assumes "draws_well_shaped env"
  shows "\<exists>X y. dummy_training_set env = Inr (X, y)
           \<and> create_dummy_model env self =
               Inr \<lparr>model = Some (forest_classifier (forest_fit env 100 10 42 X y)),
                    scaler = None,
                    feature_importance =
                      Some (forest_feature_importances (forest_fit env 100 10 42 X y)),
                    is_loaded = True\<rparr>"
proof -
  obtain ai_voices human_voices indices where
    dr: "dummy_draws env = (ai_voices, human_voices, indices)"
    by (cases "dummy_draws env") auto
  from dummy_training_set_shape [OF assms dr] obtain X y where
    ts: "dummy_training_set env = Inr (X, y)" by blast
  from create_dummy_model_state [OF ts] ts show ?thesis by blast
qed

lemma load_model_fallback:
  assumes "\<not> path_exists env MODEL_PATH
           \<or> (\<exists>e. joblib_load_model env MODEL_PATH = Inl e)
           \<or> (path_exists env SCALER_PATH \<and> (\<exists>e. joblib_load_scaler env SCALER_PATH = Inl e))"
      and dummy: "create_dummy_model env self = Inr d"
  shows "load_model env self = Inr d"
proof (cases "path_exists env MODEL_PATH")
  case False
  then show ?thesis using dummy by (simp add: load_model_def load_model_try_def)
next
  case True
  show ?thesis
  proof (cases "joblib_load_model env MODEL_PATH")
    case (Inl e)
    then show ?thesis using True dummy
      by (simp add: load_model_def load_model_try_def bind_err_def)
  next
    case (Inr m)
    with assms(1) True obtain e where
      "path_exists env SCALER_PATH" "joblib_load_scaler env SCALER_PATH = Inl e" by auto
    then show ?thesis using True Inr dummy
      by (simp add: load_model_def load_model_try_def bind_err_def)
  qed
qed

lemma load_model_loaded:
  assumes "path_exists env MODEL_PATH" "joblib_load_model env MODEL_PATH = Inr m"
      and "\<not> path_exists env SCALER_PATH \<or> joblib_load_scaler env SCALER_PATH = Inr sc"
  shows "load_model env self =
           Inr \<lparr>model = Some m,
                scaler = (if path_exists env SCALER_PATH then Some sc else scaler self),
                feature_importance =
                  (case feature_importances m of Some w \<Rightarrow> Some w
                   | None \<Rightarrow> feature_importance self),
                is_loaded = True\<rparr>"
  using assms
  by (cases "feature_importances m")
     (auto simp: load_model_def load_model_try_def bind_err_def)

lemma draws_well_shaped_no_artifacts: "draws_well_shaped no_artifacts"
  by (simp add: draws_well_shaped_def dummy_draws_def no_artifacts_def atLeast0LessThan)

lemma draws_well_shaped_voting_artifact: "draws_well_shaped voting_artifact"
  by (simp add: draws_well_shaped_def dummy_draws_def voting_artifact_def no_artifacts_def
        atLeast0LessThan)

text \<open>
  Claim C9, as stated, fails on the path where the artifact loads: the importance weighting
  is assigned only under \<^verbatim>\<open>hasattr(self.model, 'feature_importances_')\<close>. With a model file
  that holds an estimator without that attribute, as the voting ensemble of
  \<^verbatim>\<open>model/train_model.py\<close> is, \<^verbatim>\<open>load_model\<close> ends loaded, with the model set and the
  importance weighting still \<open>None\<close>.
\<close>

theorem load_model_counterexample:
  "load_model voting_artifact VoiceDetectionModel =
     Inr \<lparr>model = Some \<lparr>predict_proba = (\<lambda>X. Inr (map (\<lambda>row. [2 / 5, 3 / 5]) X)),
                       feature_importances = None\<rparr>,
          scaler = Some (\<lambda>X. Inr X), feature_importance = None, is_loaded = True\<rparr>"
  by (simp add: load_model_def load_model_try_def bind_err_def voting_artifact_def
        no_artifacts_def VoiceDetectionModel_def MODEL_PATH_def SCALER_PATH_def)

text \<open>
  Claim C9, amended. Given that the random draws have the shape NumPy promises,
  \<^verbatim>\<open>load_model\<close> never raises and always ends loaded with a model. When the model file is
  missing, or it or the scaler file fails to deserialize, the result is the placeholder:
  the forest fitted in memory on the fixed-seed two-class synthetic set, no scaler, and the
  forest's importances as the weighting; the placeholder is the same whatever the object
  held before. When the artifact deserializes, the model is the deserialized one and the
  importance weighting is populated exactly when that model exposes feature importances
  (otherwise it keeps its previous value, \<open>None\<close> after construction).
\<close>

theorem load_model_never_raises:
  assumes ws: "draws_well_shaped env"
  shows "\<exists>self'. load_model env self = Inr self' \<and> is_loaded self' \<and> model self' \<noteq> None
    \<and> (\<not> path_exists env MODEL_PATH
         \<or> (\<exists>e. joblib_load_model env MODEL_PATH = Inl e)
         \<or> (path_exists env SCALER_PATH \<and> (\<exists>e. joblib_load_scaler env SCALER_PATH = Inl e))
       \<longrightarrow> create_dummy_model env self0 = Inr self' \<and> scaler self' = None
           \<and> feature_importance self' \<noteq> None)
    \<and> (\<forall>m. path_exists env MODEL_PATH \<and> joblib_load_model env MODEL_PATH = Inr m
            \<and> (\<not> path_exists env SCALER_PATH \<or> (\<exists>sc. joblib_load_scaler env SCALER_PATH = Inr sc))
       \<longrightarrow> model self' = Some m
           \<and> feature_importance self' =
               (case feature_importances m of Some w \<Rightarrow> Some w
                | None \<Rightarrow> feature_importance self))"
proof (cases "\<not> path_exists env MODEL_PATH
         \<or> (\<exists>e. joblib_load_model env MODEL_PATH = Inl e)
         \<or> (path_exists env SCALER_PATH \<and> (\<exists>e. joblib_load_scaler env SCALER_PATH = Inl e))")
  case True
  from create_dummy_model_total [OF ws, of self] obtain X y where
    d: "create_dummy_model env self =
               Inr \<lparr>model = Some (forest_classifier (forest_fit env 100 10 42 X y)),
                    scaler = None,
                    feature_importance =
                      Some (forest_feature_importances (forest_fit env 100 10 42 X y)),
                    is_loaded = True\<rparr>"
    and ts: "dummy_training_set env = Inr (X, y)" by blast
  have d0: "create_dummy_model env self0 =
               Inr \<lparr>model = Some (forest_classifier (forest_fit env 100 10 42 X y)),
                    scaler = None,
                    feature_importance =
                      Some (forest_feature_importances (forest_fit env 100 10 42 X y)),
                    is_loaded = True\<rparr>"
    using ts by (rule create_dummy_model_state)
  have l: "load_model env self =
               Inr \<lparr>model = Some (forest_classifier (forest_fit env 100 10 42 X y)),
                    scaler = None,
                    feature_importance =
                      Some (forest_feature_importances (forest_fit env 100 10 42 X y)),
                    is_loaded = True\<rparr>"
    using True d by (rule load_model_fallback)
  have no: "\<not> (path_exists env MODEL_PATH \<and> joblib_load_model env MODEL_PATH = Inr m
            \<and> (\<not> path_exists env SCALER_PATH \<or> (\<exists>sc. joblib_load_scaler env SCALER_PATH = Inr sc)))"
    for m using True by auto
  define D where "D = \<lparr>model = Some (forest_classifier (forest_fit env 100 10 42 X y)),
                    scaler = None,
                    feature_importance =
                      Some (forest_feature_importances (forest_fit env 100 10 42 X y)),
                    is_loaded = True\<rparr>"
  have props: "is_loaded D" "model D \<noteq> None" "scaler D = None" "feature_importance D \<noteq> None"
    by (simp_all add: D_def)
  from l d0 have "load_model env self = Inr D" "create_dummy_model env self0 = Inr D"
    by (simp_all add: D_def)
  with props no show ?thesis by blast
next
  case False
  then have ex: "path_exists env MODEL_PATH" by simp
  from False obtain m where m: "joblib_load_model env MODEL_PATH = Inr m"
    by (cases "joblib_load_model env MODEL_PATH") auto
  from False have "\<not> path_exists env SCALER_PATH \<or> (\<exists>sc. joblib_load_scaler env SCALER_PATH = Inr sc)"
    by (cases "joblib_load_scaler env SCALER_PATH") auto
  then obtain sc where sc: "\<not> path_exists env SCALER_PATH \<or> joblib_load_scaler env SCALER_PATH = Inr sc"
    by blast
  note l = load_model_loaded [OF ex m sc, of self]
  show ?thesis using l False m by simp
qed

theorem load_model_never_raises_witness:
  "draws_well_shaped no_artifacts
   \<and> \<not> path_exists no_artifacts MODEL_PATH
   \<and> load_model no_artifacts VoiceDetectionModel =
       Inr \<lparr>model = Some (forest_classifier example_forest), scaler = None,
            feature_importance = Some (replicate 39 (1 / 39)), is_loaded = True\<rparr>
   \<and> draws_well_shaped voting_artifact
   \<and> path_exists voting_artifact MODEL_PATH
   \<and> joblib_load_scaler voting_artifact SCALER_PATH = Inr (\<lambda>X. Inr X)
   \<and> (\<exists>self'. load_model voting_artifact VoiceDetectionModel = Inr self' \<and> is_loaded self'
         \<and> model self' \<noteq> None \<and> feature_importance self' = None)"
proof -
  have missing: "\<not> path_exists no_artifacts MODEL_PATH" by (simp add: no_artifacts_def)
  from load_model_never_raises
         [OF draws_well_shaped_no_artifacts, of VoiceDetectionModel VoiceDetectionModel] missing
  obtain self' where
    l: "load_model no_artifacts VoiceDetectionModel = Inr self'" and
    d: "create_dummy_model no_artifacts VoiceDetectionModel = Inr self'"
    by blast
  from create_dummy_model_total [OF draws_well_shaped_no_artifacts, of VoiceDetectionModel] d
  have "self' = \<lparr>model = Some (forest_classifier example_forest), scaler = None,
            feature_importance = Some (replicate 39 (1 / 39)), is_loaded = True\<rparr>"
    by (auto simp: no_artifacts_def example_forest_def)
  with l have placeholder: "load_model no_artifacts VoiceDetectionModel =
       Inr \<lparr>model = Some (forest_classifier example_forest), scaler = None,
            feature_importance = Some (replicate 39 (1 / 39)), is_loaded = True\<rparr>"
    by simp
  have present: "path_exists voting_artifact MODEL_PATH"
      "joblib_load_scaler voting_artifact SCALER_PATH = Inr (\<lambda>X. Inr X)"
      "joblib_load_model voting_artifact MODEL_PATH =
         Inr \<lparr>predict_proba = (\<lambda>X. Inr (map (\<lambda>row. [2 / 5, 3 / 5]) X)),
              feature_importances = None\<rparr>"
    by (simp_all add: voting_artifact_def no_artifacts_def MODEL_PATH_def SCALER_PATH_def)
  have init: "feature_importance VoiceDetectionModel = None"
    by (simp add: VoiceDetectionModel_def)
  from load_model_never_raises
         [OF draws_well_shaped_voting_artifact, of VoiceDetectionModel VoiceDetectionModel]
       present init
  have "\<exists>self'. load_model voting_artifact VoiceDetectionModel = Inr self' \<and> is_loaded self'
         \<and> model self' \<noteq> None \<and> feature_importance self' = None"
    by fastforce
  with draws_well_shaped_no_artifacts draws_well_shaped_voting_artifact missing placeholder
    present(1,2)
  show ?thesis by blast
qed

section \<open>The placeholder's class labels\<close>

lemma predict_try_source:
  assumes m: "model self = Some cl" and sc: "scaler self = None"
      and p: "predict_try self features = Inr (c, conf, probs)"
  shows "\<exists>out. predict_proba cl [features] = Inr out \<and> item out 0 = Inr probs"
proof -
  from p obtain out ps human_prob ai_prob where
    src: "predict_proba cl [features] = Inr out" "item out 0 = Inr ps" and
    r: "(if ai_prob > human_prob then Inr (''AI_GENERATED'', ai_prob, ps)
         else Inr (''HUMAN'', human_prob, ps))
        = (Inr (c, conf, probs) :: error + string \<times> real \<times> real list)"
    unfolding predict_try_def Let_def m sc option.case
    by (elim bind_err_InrD) auto
  from r have "ps = probs" by (simp split: if_splits)
  with src show ?thesis by blast
qed

lemma predict_bootstrapped:
  assumes d: "self' = \<lparr>model = Some (forest_classifier f), scaler = None,
                        feature_importance = fi, is_loaded = True\<rparr>"
      and p: "fst (predict env self' features) = Inr (c, conf, probs)"
  shows "(\<exists>out. forest_predict_proba f [features] = Inr out \<and> item out 0 = Inr probs)
       \<and> (c = ''HUMAN'' \<longleftrightarrow> probs ! 1 \<le> probs ! 0)
       \<and> (c = ''HUMAN'' \<longrightarrow> conf = probs ! 0)
       \<and> (c = ''AI_GENERATED'' \<longrightarrow> conf = probs ! 1)"
proof -
  have loaded: "is_loaded self'" by (simp add: d)
  from predict_InrD [OF p] loaded have pt: "predict_try self' features = Inr (c, conf, probs)"
    by auto
  have "model self' = Some (forest_classifier f)" "scaler self' = None" by (simp_all add: d)
  from predict_try_source [OF this pt]
  have src: "\<exists>out. forest_predict_proba f [features] = Inr out \<and> item out 0 = Inr probs"
    by (simp add: forest_classifier_def)
  from predict_try_rule [OF pt] src show ?thesis by auto
qed

lemma dummy_draws_fst:
  assumes "dummy_draws env = (ai_voices, human_voices, indices)"
  shows "ai_voices = fst (random_normal env (random_seed env 42) (1 / 2) (1 / 10) 200 39)"
    and "human_voices =
           fst (random_normal env
                  (snd (random_normal env (random_seed env 42) (1 / 2) (1 / 10) 200 39))
                  (1 / 2) (3 / 10) 200 39)"
  using assms by (auto simp: dummy_draws_def Let_def split: prod.splits)

text \<open>
  Claim C10. In the placeholder's training set the samples drawn with scale 0.1 (the
  low-variance ones the source calls AI voices) carry the label 0 and the samples drawn with
  scale 0.3 (the ones it calls human voices) carry the label 1, before and after the
  shuffle; \<^verbatim>\<open>predict\<close> on the bootstrapped model takes the class-0 probability of the forest
  fitted on that set as human_prob and the class-1 probability as ai_prob. So the
  probability of the class trained on the AI-like samples is what is reported as the human
  probability: the label is HUMAN exactly when that probability is at least the other one,
  and it is then the confidence.
\<close>

theorem bootstrap_labels_inverted:
  assumes ws: "draws_well_shaped env"
      and dr: "dummy_draws env = (ai_voices, human_voices, indices)"
  shows "ai_voices = fst (random_normal env (random_seed env 42) (1 / 2) (1 / 10) 200 39)
    \<and> human_voices =
           fst (random_normal env
                  (snd (random_normal env (random_seed env 42) (1 / 2) (1 / 10) 200 39))
                  (1 / 2) (3 / 10) 200 39)
    \<and> (\<exists>X y. dummy_training_set env = Inr (X, y) \<and> length X = 400 \<and> length y = 400
         \<and> (\<forall>k<400. (indices ! k < 200 \<longrightarrow> X ! k = ai_voices ! (indices ! k) \<and> y ! k = 0)
                   \<and> (200 \<le> indices ! k \<longrightarrow>
                        X ! k = human_voices ! (indices ! k - 200) \<and> y ! k = 1))
         \<and> (\<forall>i<200. \<exists>k<400. X ! k = ai_voices ! i \<and> y ! k = 0)
         \<and> (\<forall>i<200. \<exists>k<400. X ! k = human_voices ! i \<and> y ! k = 1)
         \<and> (\<forall>self self' features c conf probs.
               create_dummy_model env self = Inr self'
               \<and> fst (predict env self' features) = Inr (c, conf, probs)
               \<longrightarrow> (\<exists>out. forest_predict_proba (forest_fit env 100 10 42 X y) [features] = Inr out
                         \<and> item out 0 = Inr probs)
                   \<and> (c = ''HUMAN'' \<longleftrightarrow> probs ! 1 \<le> probs ! 0)
                   \<and> (c = ''HUMAN'' \<longrightarrow> conf = probs ! 0)
                   \<and> (c = ''AI_GENERATED'' \<longrightarrow> conf = probs ! 1)))"
proof -
  from dummy_training_set_labels [OF ws dr] obtain X y where
    ts: "dummy_training_set env = Inr (X, y)" and lens: "length X = 400" "length y = 400" and
    lab: "\<forall>k<400. (indices ! k < 200 \<longrightarrow> X ! k = ai_voices ! (indices ! k) \<and> y ! k = 0)
                   \<and> (200 \<le> indices ! k \<longrightarrow>
                        X ! k = human_voices ! (indices ! k - 200) \<and> y ! k = 1)" and
    ai_all: "\<forall>i<200. \<exists>k<400. X ! k = ai_voices ! i \<and> y ! k = 0" and
    hu_all: "\<forall>i<200. \<exists>k<400. X ! k = human_voices ! i \<and> y ! k = 1"
    by blast
  have pred: "(\<exists>out. forest_predict_proba (forest_fit env 100 10 42 X y) [features] = Inr out
                         \<and> item out 0 = Inr probs)
                   \<and> (c = ''HUMAN'' \<longleftrightarrow> probs ! 1 \<le> probs ! 0)
                   \<and> (c = ''HUMAN'' \<longrightarrow> conf = probs ! 0)
                   \<and> (c = ''AI_GENERATED'' \<longrightarrow> conf = probs ! 1)"
    if "create_dummy_model env self = Inr self'
        \<and> fst (predict env self' features) = Inr (c, conf, probs)"
    for self self' features c conf probs
  proof -
    from that create_dummy_model_state [OF ts, of self]
    have "self' = \<lparr>model = Some (forest_classifier (forest_fit env 100 10 42 X y)),
                scaler = None,
                feature_importance = Some (forest_feature_importances (forest_fit env 100 10 42 X y)),
                is_loaded = True\<rparr>" by simp
    from predict_bootstrapped [OF this] that show ?thesis by blast
  qed
  from dummy_draws_fst [OF dr] ts lens lab ai_all hu_all pred show ?thesis by blast
qed

theorem bootstrap_labels_inverted_witness:
  "draws_well_shaped no_artifacts
   \<and> dummy_draws no_artifacts =
       (replicate 200 (replicate 39 (1 / 2)), replicate 200 (replicate 39 (1 / 2)), rev [0..<400])
   \<and> create_dummy_model no_artifacts VoiceDetectionModel =
       Inr \<lparr>model = Some (forest_classifier example_forest), scaler = None,
            feature_importance = Some (replicate 39 (1 / 39)), is_loaded = True\<rparr>
   \<and> fst (predict no_artifacts
            \<lparr>model = Some (forest_classifier example_forest), scaler = None,
             feature_importance = Some (replicate 39 (1 / 39)), is_loaded = True\<rparr>
            (replicate 39 0))
       = Inr (''HUMAN'', 3 / 4, [3 / 4, 1 / 4])
   \<and> forest_predict_proba example_forest [replicate 39 0] = Inr [[3 / 4, 1 / 4]]"
proof -
  have dr: "dummy_draws no_artifacts =
       (replicate 200 (replicate 39 (1 / 2)), replicate 200 (replicate 39 (1 / 2)), rev [0..<400])"
    by (simp add: dummy_draws_def no_artifacts_def)
  note inst = bootstrap_labels_inverted [OF draws_well_shaped_no_artifacts dr]
  from create_dummy_model_total [OF draws_well_shaped_no_artifacts, of VoiceDetectionModel]
  have d: "create_dummy_model no_artifacts VoiceDetectionModel =
       Inr \<lparr>model = Some (forest_classifier example_forest), scaler = None,
            feature_importance = Some (replicate 39 (1 / 39)), is_loaded = True\<rparr>"
    by (auto simp: no_artifacts_def example_forest_def)
  have p: "fst (predict no_artifacts
            \<lparr>model = Some (forest_classifier example_forest), scaler = None,
             feature_importance = Some (replicate 39 (1 / 39)), is_loaded = True\<rparr>
            (replicate 39 0))
       = Inr (''HUMAN'', 3 / 4, [3 / 4, 1 / 4])"
    by (simp add: predict_def predict_try_def reraise_def bind_err_def item_def
          forest_classifier_def example_forest_def)
  have f: "forest_predict_proba example_forest [replicate 39 0] = Inr [[3 / 4, 1 / 4]]"
    by (simp add: example_forest_def)
  from inst draws_well_shaped_no_artifacts dr d p f show ?thesis by blast
qed

section \<open>Feature extraction\<close>

lemma extract_mfcc_rows:
  assumes "extract_mfcc L self a = Inr c"
      and "feature_mfcc L a (fe_sample_rate self) (n_mfcc self) (n_fft self) (hop_length self) = Inr M"
  shows "c = map np_mean M"
  using assms by (simp add: extract_mfcc_def bind_err_def)

lemma extract_pitch_features_cases:
  assumes "pyin L a (fe_sample_rate self) = Inr f0"
  shows "extract_pitch_features L self a =
           (let voiced = map the (filter (\<lambda>v. v \<noteq> None) f0) in
            if voiced = [] then Inr [0, 0, 0, 0, 0]
            else Inr [np_mean voiced, np_std voiced, np_min voiced, np_max voiced,
                      np_max voiced - np_min voiced])"
  using assms by (simp add: extract_pitch_features_def bind_err_def Let_def)

lemma extract_pitch_features_length:
  assumes "extract_pitch_features L self a = Inr p"
  shows "length p = 5"
proof -
  from assms obtain f0 where "pyin L a (fe_sample_rate self) = Inr f0"
    unfolding extract_pitch_features_def by (elim bind_err_InrD)
  from extract_pitch_features_cases [OF this] assms show ?thesis
    by (auto simp: Let_def split: if_splits)
qed

lemma extract_energy_features_length:
  assumes "extract_energy_features L self a = Inr e"
  shows "length e = 4"
  using assms unfolding extract_energy_features_def Let_def
  by (elim bind_err_InrD) auto

lemma extract_spectral_features_length:
  assumes "extract_spectral_features L self a = Inr s"
  shows "length s = 10"
  using assms unfolding extract_spectral_features_def Let_def
  by (elim bind_err_InrD) auto

lemma extract_prosody_features_length:
  assumes "extract_prosody_features L self a = Inr pr"
  shows "length pr = 7"
  using assms unfolding extract_prosody_features_def Let_def
  by (elim bind_err_InrD) auto

lemma reraise_InrD:
  assumes "reraise p m = Inr x"
  shows "m = Inr x"
  using assms by (cases m) (simp_all add: reraise_def)

lemma extract_features_layout:
  assumes "extract_features L self a = Inr fv"
  shows "\<exists>c p e s pr.
           extract_mfcc L self a = Inr c \<and> extract_pitch_features L self a = Inr p
         \<and> extract_energy_features L self a = Inr e
         \<and> extract_spectral_features L self a = Inr s
         \<and> extract_prosody_features L self a = Inr pr
         \<and> fv = c @ p @ e @ s @ pr
         \<and> length p = 5 \<and> length e = 4 \<and> length s = 10 \<and> length pr = 7"
proof -
  from assms obtain c p e s pr where
    parts: "extract_mfcc L self a = Inr c" "extract_pitch_features L self a = Inr p"
      "extract_energy_features L self a = Inr e" "extract_spectral_features L self a = Inr s"
      "extract_prosody_features L self a = Inr pr" and
    fv: "fv = c @ p @ e @ s @ pr"
    unfolding extract_features_def Let_def
    by (elim reraise_InrD [elim_format] bind_err_InrD) auto
  from parts(2-5) have "length p = 5" "length e = 4" "length s = 10" "length pr = 7"
    by (simp_all add: extract_pitch_features_length extract_energy_features_length
          extract_spectral_features_length extract_prosody_features_length)
  with parts fv show ?thesis by blast
qed

lemma extract_features_length:
  assumes fv: "extract_features L self a = Inr fv"
      and m: "feature_mfcc L a (fe_sample_rate self) (n_mfcc self) (n_fft self) (hop_length self) = Inr M"
      and rows: "length M = 13"
  shows "length fv = 39"
    and "\<exists>p. extract_pitch_features L self a = Inr p \<and> take 5 (drop 13 fv) = p"
proof -
  from extract_features_layout [OF fv] obtain c p e s pr where
    parts: "extract_mfcc L self a = Inr c" "extract_pitch_features L self a = Inr p"
    and eq: "fv = c @ p @ e @ s @ pr"
    and lens: "length p = 5" "length e = 4" "length s = 10" "length pr = 7"
    by blast
  from extract_mfcc_rows [OF parts(1) m] rows have c: "length c = 13" by simp
  show "length fv = 39" using eq c lens by simp
  show "\<exists>p. extract_pitch_features L self a = Inr p \<and> take 5 (drop 13 fv) = p"
    using parts(2) eq c lens by simp
qed

lemma np_min_max_bounds:
  assumes "xs \<noteq> []"
  shows "np_min xs \<in> set xs" "np_max xs \<in> set xs"
        "\<forall>x\<in>set xs. np_min xs \<le> x \<and> x \<le> np_max xs"
  using assms by (simp_all add: np_min_def np_max_def)

text \<open>
  Claim C6. Let \<open>voiced\<close> be the F0 values of the frames whose F0 is not NaN. If there is
  at least one, the pitch features are the mean, the standard deviation, the minimum, the
  maximum and the maximum minus the minimum of \<open>voiced\<close> (minimum and maximum being values
  of \<open>voiced\<close> that bound all of it). If there is none, the pitch features are five zeros,
  returned as a result and not raised as an error. In a feature vector that
  \<^verbatim>\<open>extract_features\<close> returns, with the thirteen cepstral rows in front, the pitch
  features are the entries 13 to 17 of the 39.
\<close>

theorem pitch_features_voiced_or_zero:
  assumes f0: "pyin L a (fe_sample_rate self) = Inr f0"
      and v: "voiced = map the (filter (\<lambda>v. v \<noteq> None) f0)"
  shows "(voiced \<noteq> [] \<longrightarrow>
            extract_pitch_features L self a =
              Inr [np_mean voiced, np_std voiced, np_min voiced, np_max voiced,
                   np_max voiced - np_min voiced]
            \<and> np_min voiced \<in> set voiced \<and> np_max voiced \<in> set voiced
            \<and> (\<forall>x\<in>set voiced. np_min voiced \<le> x \<and> x \<le> np_max voiced))
       \<and> (voiced = [] \<longrightarrow> extract_pitch_features L self a = Inr [0, 0, 0, 0, 0])
       \<and> (\<forall>fv M. extract_features L self a = Inr fv
              \<and> feature_mfcc L a (fe_sample_rate self) (n_mfcc self) (n_fft self)
                   (hop_length self) = Inr M
              \<and> length M = 13
            \<longrightarrow> length fv = 39 \<and> Inr (take 5 (drop 13 fv)) = extract_pitch_features L self a)"
proof (intro conjI impI allI)
  assume ne: "voiced \<noteq> []"
  show "extract_pitch_features L self a =
              Inr [np_mean voiced, np_std voiced, np_min voiced, np_max voiced,
                   np_max voiced - np_min voiced]"
    using ne v by (simp add: extract_pitch_features_cases [OF f0] Let_def)
  show "np_min voiced \<in> set voiced" "np_max voiced \<in> set voiced"
       "\<forall>x\<in>set voiced. np_min voiced \<le> x \<and> x \<le> np_max voiced"
    using np_min_max_bounds [OF ne] by blast+
next
  assume "voiced = []"
  then show "extract_pitch_features L self a = Inr [0, 0, 0, 0, 0]"
    using v by (simp add: extract_pitch_features_cases [OF f0] Let_def)
next
  fix fv M
  assume h: "extract_features L self a = Inr fv
              \<and> feature_mfcc L a (fe_sample_rate self) (n_mfcc self) (n_fft self)
                   (hop_length self) = Inr M
              \<and> length M = 13"
  then have fv: "extract_features L self a = Inr fv"
    and m: "feature_mfcc L a (fe_sample_rate self) (n_mfcc self) (n_fft self)
                   (hop_length self) = Inr M"
    and rows: "length M = 13" by simp_all
  show "length fv = 39" using fv m rows by (rule extract_features_length)
  from extract_features_length(2) [OF fv m rows]
  show "Inr (take 5 (drop 13 fv)) = extract_pitch_features L self a" by auto
qed

theorem pitch_features_voiced_or_zero_witness:
  "pyin voiced_librosa (Arr1 [0, 0, 0]) (fe_sample_rate FeatureExtractor)
     = Inr [Some 100, None, Some 200]
   \<and> [100, 200] = map the (filter (\<lambda>v. v \<noteq> None) [Some 100, None, Some (200::real)])
   \<and> extract_pitch_features voiced_librosa FeatureExtractor (Arr1 [0, 0, 0])
     = Inr [150, 50, 100, 200, 100]
   \<and> pyin silent_librosa (Arr1 [0, 0, 0]) (fe_sample_rate FeatureExtractor) = Inr [None, None]
   \<and> extract_pitch_features silent_librosa FeatureExtractor (Arr1 [0, 0, 0])
     = Inr [0, 0, 0, 0, 0]
   \<and> extract_features silent_librosa FeatureExtractor (Arr1 [0, 0, 0]) =
       Inr (replicate 13 0 @ [0, 0, 0, 0, 0] @ [0, 0, 0, 0] @ [0, 0, 0, 0, 1, 0, 0, 0, 0, 0]
            @ [0, 0, 0, 0, 0, 0, 0])
   \<and> take 5 (drop 13 (replicate 13 0 @ [0, 0, 0, 0, 0] @ [0, 0, 0, 0]
                        @ [0, 0, 0, 0, 1, 0, 0, 0, 0, 0] @ [0, 0, 0, 0, 0, 0, 0 :: real]))
     = [0, 0, 0, 0, 0]"
proof -
  have root: "sqrt 2500 = 50"
  proof -
    have "sqrt 2500 = sqrt (50\<^sup>2)" by simp
    then show ?thesis by (simp only: real_sqrt_abs abs_numeral)
  qed
  have f0v: "pyin voiced_librosa (Arr1 [0, 0, 0]) (fe_sample_rate FeatureExtractor)
     = Inr [Some 100, None, Some 200]"
    by (simp add: voiced_librosa_def silent_librosa_def)
  have f0s: "pyin silent_librosa (Arr1 [0, 0, 0]) (fe_sample_rate FeatureExtractor)
     = Inr [None, None]"
    by (simp add: silent_librosa_def)
  have vv: "[100, 200] = map the (filter (\<lambda>v. v \<noteq> None) [Some 100, None, Some (200::real)])"
    by simp
  have vs: "[] = map the (filter (\<lambda>v. v \<noteq> None) [None, None :: real option])"
    by simp
  from pitch_features_voiced_or_zero [OF f0v vv]
  have voiced: "extract_pitch_features voiced_librosa FeatureExtractor (Arr1 [0, 0, 0])
     = Inr [150, 50, 100, 200, 100]"
    by (simp add: np_mean_def np_std_def np_min_def np_max_def root)
  from pitch_features_voiced_or_zero [OF f0s vs]
  have silent: "extract_pitch_features silent_librosa FeatureExtractor (Arr1 [0, 0, 0])
     = Inr [0, 0, 0, 0, 0]"
    by simp
  have full: "extract_features silent_librosa FeatureExtractor (Arr1 [0, 0, 0]) =
       Inr (replicate 13 0 @ [0, 0, 0, 0, 0] @ [0, 0, 0, 0] @ [0, 0, 0, 0, 1, 0, 0, 0, 0, 0]
            @ [0, 0, 0, 0, 0, 0, 0])"
    by (simp add: extract_features_def extract_mfcc_def extract_pitch_features_def
        extract_energy_features_def extract_spectral_features_def extract_prosody_features_def
        silent_librosa_def FeatureExtractor_def N_MFCC_def reraise_def bind_err_def item_def
        np_mean_def np_std_def)
  have rows: "feature_mfcc silent_librosa (Arr1 [0, 0, 0]) (fe_sample_rate FeatureExtractor)
        (n_mfcc FeatureExtractor) (n_fft FeatureExtractor) (hop_length FeatureExtractor)
      = Inr (replicate 13 [0, 0])"
    by (simp add: silent_librosa_def FeatureExtractor_def N_MFCC_def)
  from pitch_features_voiced_or_zero [OF f0s vs]
  have "extract_features silent_librosa FeatureExtractor (Arr1 [0, 0, 0]) =
          Inr (replicate 13 0 @ [0, 0, 0, 0, 0] @ [0, 0, 0, 0] @ [0, 0, 0, 0, 1, 0, 0, 0, 0, 0]
               @ [0, 0, 0, 0, 0, 0, 0])
        \<and> feature_mfcc silent_librosa (Arr1 [0, 0, 0]) (fe_sample_rate FeatureExtractor)
            (n_mfcc FeatureExtractor) (n_fft FeatureExtractor) (hop_length FeatureExtractor)
          = Inr (replicate 13 [0, 0])
        \<and> length (replicate 13 [0, 0 :: real]) = 13
      \<longrightarrow> Inr (take 5 (drop 13 (replicate 13 0 @ [0, 0, 0, 0, 0] @ [0, 0, 0, 0]
                        @ [0, 0, 0, 0, 1, 0, 0, 0, 0, 0] @ [0, 0, 0, 0, 0, 0, 0 :: real])))
          = extract_pitch_features silent_librosa FeatureExtractor (Arr1 [0, 0, 0])"
    by blast
  with full rows silent
  have slice: "take 5 (drop 13 (replicate 13 0 @ [0, 0, 0, 0, 0] @ [0, 0, 0, 0]
                        @ [0, 0, 0, 0, 1, 0, 0, 0, 0, 0] @ [0, 0, 0, 0, 0, 0, 0 :: real]))
     = [0, 0, 0, 0, 0]"
    by simp
  from f0v vv voiced f0s silent full slice show ?thesis by blast
qed

end
